theory Spec2Isabelle
  imports Main "HOL-Library.Sublist"
begin

section \<open>Python text operations used by the endpoint\<close>

text \<open>
  Text is a list of characters. A character stands for a code point in the range
  0..255; \<open>str.strip()\<close> and \<open>str.lower()\<close> are modelled on that range.
\<close>

definition isspace :: "char \<Rightarrow> bool" where
  "isspace c =
     (let n = (of_char c :: nat)
      in (9 \<le> n \<and> n \<le> 13) \<or> (28 \<le> n \<and> n \<le> 32) \<or> n = 133 \<or> n = 160)"

definition strip :: "string \<Rightarrow> string" where
  "strip s = rev (dropWhile isspace (rev (dropWhile isspace s)))"

definition lower_char :: "char \<Rightarrow> char" where
  "lower_char c =
     (let n = (of_char c :: nat)
      in if (65 \<le> n \<and> n \<le> 90) \<or> (192 \<le> n \<and> n \<le> 222 \<and> n \<noteq> 215)
         then char_of (n + 32) else c)"

definition lower :: "string \<Rightarrow> string" where
  "lower s = map lower_char s"

definition startswith :: "string \<Rightarrow> string \<Rightarrow> bool" where
  "startswith s p = (take (length p) s = p)"

section \<open>Splitting a reply into synthesis chunks\<close>

text \<open>
  \<open>range(start, stop, step)\<close> for a positive step. The only caller passes the
  literal \<open>maxlen = 3000\<close> as step; Python rejects a zero step, for which this
  function yields no index.
\<close>

function py_range :: "nat \<Rightarrow> nat \<Rightarrow> nat \<Rightarrow> nat list" where
  "py_range start stop step =
     (if step = 0 \<or> stop \<le> start then []
      else start # py_range (start + step) stop step)"
  by pat_completeness auto
termination
  by (relation "measure (\<lambda>(start, stop, step). stop - start)") auto

declare py_range.simps [simp del]

text \<open>The slice \<open>s[i:j]\<close> for indices \<open>0 \<le> i \<le> j\<close>; Python clamps both to the length.\<close>

definition py_slice :: "nat \<Rightarrow> nat \<Rightarrow> 'a list \<Rightarrow> 'a list" where
  "py_slice i j s = take (j - i) (drop i s)"

definition maxlen :: nat where
  "maxlen = 3000"

text \<open>\<open>[llm_reply[i:i + maxlen] for i in range(0, len(llm_reply), maxlen)]\<close>\<close>

definition split_chunks :: "nat \<Rightarrow> 'a list \<Rightarrow> 'a list list" where
  "split_chunks n s = map (\<lambda>i. py_slice i (i + n) s) (py_range 0 (length s) n)"

definition chunks_of :: "string \<Rightarrow> string list" where
  "chunks_of llm_reply = split_chunks maxlen llm_reply"

section \<open>Decoded JSON values and the Python operations applied to them\<close>

text \<open>
  A value returned by \<open>response.json()\<close>. A dict is the list of its items (keys are
  distinct; \<open>map_of\<close> looks a key up). Numbers are integers here.
\<close>

datatype json =
    JNull
  | JBool bool
  | JNum int
  | JStr string
  | JArr "json list"
  | JObj "(string \<times> json) list"

datatype pyexn =
    FileNotFoundError
  | IndexError
  | KeyError
  | TypeError
  | AttributeError
  | JSONDecodeError
  | ClientError string

text \<open>Truth value of a Python object, as \<open>if x:\<close> and \<open>x or y\<close> take it.\<close>

fun truthy :: "json \<Rightarrow> bool" where
  "truthy JNull = False"
| "truthy (JBool b) = b"
| "truthy (JNum n) = (n \<noteq> 0)"
| "truthy (JStr s) = (s \<noteq> [])"
| "truthy (JArr xs) = (xs \<noteq> [])"
| "truthy (JObj d) = (d \<noteq> [])"

definition truthy_opt :: "string option \<Rightarrow> bool" where
  "truthy_opt x = (case x of None \<Rightarrow> False | Some s \<Rightarrow> s \<noteq> [])"

text \<open>\<open>x.get(key, default)\<close>: only a dict has the method.\<close>

fun dict_get :: "json \<Rightarrow> string \<Rightarrow> json \<Rightarrow> pyexn + json" where
  "dict_get (JObj d) k dflt = Inr (case map_of d k of None \<Rightarrow> dflt | Some v \<Rightarrow> v)"
| "dict_get _ k dflt = Inl AttributeError"

text \<open>\<open>x[0]\<close>\<close>

fun index0 :: "json \<Rightarrow> pyexn + json" where
  "index0 (JArr []) = Inl IndexError"
| "index0 (JArr (x # xs)) = Inr x"
| "index0 (JStr []) = Inl IndexError"
| "index0 (JStr (c # cs)) = Inr (JStr [c])"
| "index0 (JObj d) = Inl KeyError"
| "index0 _ = Inl TypeError"

text \<open>\<open>key in x\<close> for a string key\<close>

fun contains :: "string \<Rightarrow> json \<Rightarrow> pyexn + bool" where
  "contains k (JObj d) = Inr (k \<in> set (map fst d))"
| "contains k (JArr xs) = Inr (JStr k \<in> set xs)"
| "contains k (JStr s) = Inr (sublist k s)"
| "contains k _ = Inl TypeError"

text \<open>\<open>x[key]\<close> for a string key\<close>

fun getitem :: "json \<Rightarrow> string \<Rightarrow> pyexn + json" where
  "getitem (JObj d) k = (case map_of d k of None \<Rightarrow> Inl KeyError | Some v \<Rightarrow> Inr v)"
| "getitem _ k = Inl TypeError"

text \<open>\<open>for a in x\<close>\<close>

fun iterate :: "json \<Rightarrow> pyexn + json list" where
  "iterate (JArr xs) = Inr xs"
| "iterate (JStr s) = Inr (map (\<lambda>c. JStr [c]) s)"
| "iterate (JObj d) = Inr (map (\<lambda>kv. JStr (fst kv)) d)"
| "iterate _ = Inl TypeError"

text \<open>\<open>x.strip()\<close>: a method of \<open>str\<close> only.\<close>

fun str_strip :: "json \<Rightarrow> pyexn + string" where
  "str_strip (JStr s) = Inr (strip s)"
| "str_strip _ = Inl AttributeError"

text \<open>Sequencing of steps that may raise.\<close>

fun and_then :: "pyexn + 'a \<Rightarrow> ('a \<Rightarrow> pyexn + 'b) \<Rightarrow> pyexn + 'b" where
  "and_then (Inl raised) next_step = Inl raised"
| "and_then (Inr v) next_step = next_step v"

fun map_raise :: "('a \<Rightarrow> pyexn + 'b) \<Rightarrow> 'a list \<Rightarrow> pyexn + 'b list" where
  "map_raise f [] = Inr []"
| "map_raise f (x # xs) = and_then (f x) (\<lambda>y. and_then (map_raise f xs) (\<lambda>ys. Inr (y # ys)))"

fun join :: "string \<Rightarrow> string list \<Rightarrow> string" where
  "join sep [] = []"
| "join sep [x] = x"
| "join sep (x # y # ys) = x @ sep @ join sep (y # ys)"

section \<open>Process state, configuration and the outside world\<close>

record message =
  role :: string
  msg_text :: json

record part =
  part_text :: json

record content =
  content_role :: string
  parts :: "part list"

record transcript =
  transcript_error :: "string option"
  transcript_text :: "string option"

record response =
  user_text :: string
  llm_text :: json
  audio_url :: json

text \<open>What the handler does to the outside: file removals and outbound requests, in order.\<close>

datatype effect =
    Unlink string bool
  | Http_get string
  | Gemini_post "content list"
  | Murf_post string

text \<open>
  The module's dict \<open>chat_history_store\<close>, the files of the uploads directory, and the
  effects performed so far.
\<close>

record world =
  chat_history_store :: "string \<rightharpoonup> message list"
  files :: "string set"
  effects :: "effect list"

text \<open>
  An HTTP exchange: the client raises, or a response arrives with its status code, its
  body text and the result of \<open>.json()\<close> (\<open>None\<close> when the body does not decode).
\<close>

datatype http_result =
    Raises pyexn
  | Responds nat string "json option"

text \<open>
  The collaborators of one request: the name \<open>NamedTemporaryFile\<close> picks, the outcome
  of each provider call, and the library functions \<open>urllib.parse.quote_plus\<close> and
  \<open>str()\<close> of a decoded value.
\<close>

record env =
  temp_name :: string
  transcribe :: "string \<Rightarrow> pyexn + transcript"
  http_get :: "string \<Rightarrow> http_result"
  gemini_post :: "content list \<Rightarrow> http_result"
  murf_post :: "nat \<Rightarrow> string \<Rightarrow> http_result"
  quote_plus :: "string \<Rightarrow> string"
  py_str :: "json \<Rightarrow> string"

text \<open>The four values \<open>os.getenv\<close> returns at import time.\<close>

record config =
  ASSEMBLYAI_API_KEY :: "string option"
  MURF_API_KEY :: "string option"
  GEMINI_API_KEY :: "string option"
  NEWSAPI_KEY :: "string option"

datatype gemini_cause =
    Api_error string
  | Client_failure pyexn

datatype detail =
    Transcription_failed pyexn
  | Transcription_error string
  | Gemini_call_failed gemini_cause
  | LLM_reply_missing
  | No_audio_from_Murf
  | Murf_call_failed

datatype exn =
    HTTPException nat detail
  | Other pyexn

section \<open>Startup\<close>

text \<open>The loop over the four keys: the first unset or empty one raises \<open>RuntimeError\<close>.\<close>

fun first_unset :: "(string \<times> string option) list \<Rightarrow> string option" where
  "first_unset [] = None"
| "first_unset ((key, v) # rest) = (if truthy_opt v then first_unset rest else Some key)"

definition startup :: "config \<Rightarrow> string + config" where
  "startup cfg =
     (case first_unset
             [(''ASSEMBLYAI_API_KEY'', ASSEMBLYAI_API_KEY cfg),
              (''MURF_API_KEY'', MURF_API_KEY cfg),
              (''GEMINI_API_KEY'', GEMINI_API_KEY cfg),
              (''NEWSAPI_KEY'', NEWSAPI_KEY cfg)] of
        Some key \<Rightarrow> Inl (key @ '' not set in environment'')
      | None \<Rightarrow> Inr cfg)"

section \<open>History store\<close>

definition get_chat_history :: "world \<Rightarrow> string \<Rightarrow> message list" where
  "get_chat_history w session_id =
     (case chat_history_store w session_id of None \<Rightarrow> [] | Some h \<Rightarrow> h)"

definition add_message_to_history :: "string \<Rightarrow> string \<Rightarrow> json \<Rightarrow> world \<Rightarrow> world" where
  "add_message_to_history session_id r t w =
     (let store = (case chat_history_store w session_id of
                     None \<Rightarrow> (chat_history_store w)(session_id \<mapsto> [])
                   | Some h \<Rightarrow> chat_history_store w)
      in case store session_id of
           None \<Rightarrow> w
         | Some h \<Rightarrow>
             w\<lparr>chat_history_store := store(session_id \<mapsto> h @ [\<lparr>role = r, msg_text = t\<rparr>])\<rparr>)"

text \<open>The slice \<open>xs[i:]\<close> for any integer \<open>i\<close>: a negative index counts from the end.\<close>

definition py_slice_from :: "int \<Rightarrow> 'a list \<Rightarrow> 'a list" where
  "py_slice_from i xs =
     (let n = int (length xs);
          j = (if i < 0 then max 0 (n + i) else min i n)
      in drop (nat j) xs)"

definition build_gemini_contents :: "world \<Rightarrow> string \<Rightarrow> int \<Rightarrow> content list" where
  "build_gemini_contents w session_id limit =
     map (\<lambda>msg. \<lparr>content_role = role msg, parts = [\<lparr>part_text = msg_text msg\<rparr>]\<rparr>)
         (py_slice_from (- limit) (get_chat_history w session_id))"

definition PERSONA_PROMPT :: string where
  "PERSONA_PROMPT =
     ''You are Leo, a helpful and friendly AI assistant. '' @
     ''You speak clearly, stay concise, and maintain a conversational tone. '' @
     ''You blend warmth with intelligence, avoid being overly formal, '' @
     ''and gently steer the conversation back if the user goes off-topic.''"

section \<open>Skills\<close>

definition perform :: "effect \<Rightarrow> world \<Rightarrow> world" where
  "perform e w = w\<lparr>effects := effects w @ [e]\<rparr>"

text \<open>An f-string field \<open>{x}\<close>: a \<open>str\<close> as it is, any other value through \<open>str()\<close>.\<close>

definition format_value :: "env \<Rightarrow> json \<Rightarrow> string" where
  "format_value env x = (case x of JStr s \<Rightarrow> s | _ \<Rightarrow> py_str env x)"

definition heading_answer :: "env \<Rightarrow> json \<Rightarrow> pyexn + json" where
  "heading_answer env data =
     and_then (dict_get data ''Heading'' JNull) (\<lambda>heading.
       if truthy heading
       then Inr (JStr (''I found something about '' @ format_value env heading @
                       '', but details are limited.''))
       else Inr (JStr ''No direct answer found, try refining your query.''))"

definition search_answer :: "env \<Rightarrow> json \<Rightarrow> pyexn + json" where
  "search_answer env data =
     and_then (dict_get data ''AbstractText'' JNull) (\<lambda>abstract.
       if truthy abstract then Inr abstract
       else and_then (dict_get data ''RelatedTopics'' (JArr [])) (\<lambda>topics.
         if truthy topics
         then and_then (index0 topics) (\<lambda>first.
                and_then (contains ''Text'' first) (\<lambda>has_text.
                  if has_text then getitem first ''Text''
                  else and_then (contains ''FirstURL'' first) (\<lambda>has_url.
                    if has_url
                    then and_then (getitem first ''FirstURL'') (\<lambda>u.
                           Inr (JStr (''Here's a link: '' @ format_value env u)))
                    else heading_answer env data)))
         else heading_answer env data))"

definition simple_web_search :: "env \<Rightarrow> string \<Rightarrow> world \<Rightarrow> (pyexn + json) \<times> world" where
  "simple_web_search env query w =
     (let url = ''https://api.duckduckgo.com/?q='' @ query @ ''&format=json'';
          w' = perform (Http_get url) w
      in case http_get env url of
           Raises e \<Rightarrow> (Inl e, w')
         | Responds status body js \<Rightarrow>
             if status = 200
             then (case js of
                     None \<Rightarrow> (Inl JSONDecodeError, w')
                   | Some data \<Rightarrow> (search_answer env data, w'))
             else (Inr (JStr ''Web search service is currently unavailable.''), w'))"

definition headline :: "env \<Rightarrow> json \<Rightarrow> pyexn + string" where
  "headline env article =
     and_then (getitem article ''title'') (\<lambda>title. Inr (''- '' @ format_value env title))"

definition news_answer :: "env \<Rightarrow> string \<Rightarrow> json \<Rightarrow> pyexn + json" where
  "news_answer env topic data =
     and_then (dict_get data ''articles'' (JArr [])) (\<lambda>articles.
       if truthy articles
       then and_then (iterate articles) (\<lambda>items.
              and_then (map_raise (headline env) items) (\<lambda>headlines.
                Inr (JStr (''Here are the top headlines:'' @ [CHR 0x0A] @
                           join [CHR 0x0A] headlines))))
       else Inr (JStr (''No news found for '' @ [CHR 0x27] @ topic @ [CHR 0x27] @ ''.'')))"

definition news_not_configured :: json where
  "news_not_configured = JStr ''NewsAPI key not configured; news feature unavailable.''"

definition get_latest_news ::
  "config \<Rightarrow> env \<Rightarrow> string \<Rightarrow> world \<Rightarrow> (pyexn + json) \<times> world" where
  "get_latest_news cfg env topic w =
     (case NEWSAPI_KEY cfg of
        None \<Rightarrow> (Inr news_not_configured, w)
      | Some key \<Rightarrow>
          if key = [] then (Inr news_not_configured, w)
          else
            (let topic_encoded = quote_plus env topic;
                 url = ''https://newsapi.org/v2/top-headlines?'' @
                       ''q='' @ topic_encoded @ ''&language=en&pageSize=5&apiKey='' @ key;
                 w' = perform (Http_get url) w
             in case http_get env url of
                  Raises e \<Rightarrow> (Inl e, w')
                | Responds status body js \<Rightarrow>
                    if status \<noteq> 200
                    then (Inr (JStr ''News service is currently unavailable.''), w')
                    else (case js of
                            None \<Rightarrow> (Inl JSONDecodeError, w')
                          | Some data \<Rightarrow> (news_answer env topic data, w'))))"

section \<open>The chat endpoint\<close>

text \<open>\<open>os.unlink(path)\<close>: removes the file, or raises when there is none.\<close>

definition os_unlink :: "string \<Rightarrow> world \<Rightarrow> (pyexn + unit) \<times> world" where
  "os_unlink path w =
     (if path \<in> files w
      then (Inr (), perform (Unlink path True) (w\<lparr>files := files w - {path}\<rparr>))
      else (Inl FileNotFoundError, perform (Unlink path False) w))"

text \<open>
  The \<open>try\<close> statement around the transcription. The handler of \<open>except Exception\<close>
  unlinks and raises the 500; the \<open>finally\<close> clause unlinks on every way out, and an
  exception it raises replaces the one in flight.
\<close>

definition transcribe_audio :: "env \<Rightarrow> string \<Rightarrow> world \<Rightarrow> (exn + transcript) \<times> world" where
  "transcribe_audio env temp_path w =
     (case transcribe env temp_path of
        Inl e \<Rightarrow>
          (case os_unlink temp_path w of
             (Inl e1, w1) \<Rightarrow>
               (case os_unlink temp_path w1 of
                  (Inl e2, w2) \<Rightarrow> (Inl (Other e2), w2)
                | (Inr u, w2) \<Rightarrow> (Inl (Other e1), w2))
           | (Inr u, w1) \<Rightarrow>
               (case os_unlink temp_path w1 of
                  (Inl e2, w2) \<Rightarrow> (Inl (Other e2), w2)
                | (Inr u', w2) \<Rightarrow> (Inl (HTTPException 500 (Transcription_failed e)), w2)))
      | Inr t \<Rightarrow>
          (case os_unlink temp_path w of
             (Inl e2, w2) \<Rightarrow> (Inl (Other e2), w2)
           | (Inr u, w2) \<Rightarrow> (Inr t, w2)))"

text \<open>
  The check on the transcript: the stripped text, or the 400 with
  \<open>transcript.error or 'Empty text'\<close>.
\<close>

definition error_or_empty_text :: "transcript \<Rightarrow> string" where
  "error_or_empty_text t =
     (case transcript_error t of
        None \<Rightarrow> ''Empty text''
      | Some e \<Rightarrow> if e = [] then ''Empty text'' else e)"

definition checked_text :: "transcript \<Rightarrow> exn + string" where
  "checked_text t =
     (let bad = HTTPException 400 (Transcription_error (error_or_empty_text t))
      in if truthy_opt (transcript_error t) then Inl bad
         else case transcript_text t of
                None \<Rightarrow> Inl bad
              | Some txt \<Rightarrow>
                  if txt = [] then Inl bad
                  else if strip txt = [] then Inl bad
                  else Inr (strip txt))"

text \<open>
  The reply of the model: the \<open>try\<close> block that reads
  \<open>candidates[0].content.parts[0].text\<close>; \<open>Inr None\<close> when a test fails and
  \<open>llm_reply\<close> keeps its initial \<open>None\<close>.
\<close>

definition read_reply :: "json \<Rightarrow> pyexn + string option" where
  "read_reply llm_data =
     and_then (dict_get llm_data ''candidates'' (JArr [])) (\<lambda>candidates.
       if truthy candidates
       then and_then (index0 candidates) (\<lambda>c0.
              and_then (dict_get c0 ''content'' (JObj [])) (\<lambda>cont.
                and_then (dict_get cont ''parts'' (JArr [])) (\<lambda>ps.
                  if truthy ps
                  then and_then (index0 ps) (\<lambda>p0.
                         and_then (contains ''text'' p0) (\<lambda>has_text.
                           if has_text
                           then and_then (getitem p0 ''text'') (\<lambda>t.
                                  and_then (str_strip t) (\<lambda>r. Inr (Some r)))
                           else Inr None))
                  else Inr None)))
       else Inr None)"

text \<open>The handler of \<open>except Exception\<close> logs and leaves \<open>llm_reply\<close> as \<open>None\<close>.\<close>

definition extract_llm_reply :: "json \<Rightarrow> string option" where
  "extract_llm_reply llm_data = (case read_reply llm_data of Inl e \<Rightarrow> None | Inr r \<Rightarrow> r)"

definition generate_murf_audio :: "env \<Rightarrow> nat \<Rightarrow> string \<Rightarrow> exn + json" where
  "generate_murf_audio env i chunk =
     (case murf_post env i chunk of
        Raises e \<Rightarrow> Inl (Other e)
      | Responds status body js \<Rightarrow>
          (case js of
             None \<Rightarrow> Inl (Other JSONDecodeError)
           | Some data \<Rightarrow>
               (case dict_get data ''audioFile'' JNull of
                  Inl e \<Rightarrow> Inl (Other e)
                | Inr a \<Rightarrow>
                    if truthy a then Inr a
                    else (case dict_get data ''audio_url'' JNull of
                            Inl e \<Rightarrow> Inl (Other e)
                          | Inr b \<Rightarrow>
                              if truthy b then Inr b
                              else Inl (HTTPException 500 No_audio_from_Murf)))))"

fun all_results :: "('e + 'a) list \<Rightarrow> 'a list option" where
  "all_results [] = Some []"
| "all_results (Inl e # rs) = None"
| "all_results (Inr x # rs) = (case all_results rs of None \<Rightarrow> None | Some xs \<Rightarrow> Some (x # xs))"

text \<open>
  \<open>asyncio.gather\<close> over one coroutine per chunk, inside \<open>try\<close>: the list of URLs
  when every coroutine returns, the 500 as soon as one raises.
\<close>

definition gather_murf_audio :: "env \<Rightarrow> string list \<Rightarrow> exn + json list" where
  "gather_murf_audio env chunks =
     (case all_results (map (\<lambda>(i, chunk). generate_murf_audio env i chunk)
                            (enumerate 0 chunks)) of
        None \<Rightarrow> Inl (HTTPException 500 Murf_call_failed)
      | Some audio_urls \<Rightarrow> Inr audio_urls)"

text \<open>
  The synthesis step: \<open>gather\<close> starts every coroutine before it waits, so one request
  per chunk is posted, recorded here in chunk order, whatever the outcome. The message of
  the 500 is that of whichever coroutine raised first and is not kept.
\<close>

definition synthesize ::
  "env \<Rightarrow> string \<Rightarrow> string \<Rightarrow> world \<Rightarrow> (exn + response) \<times> world" where
  "synthesize env utext llm_reply w =
     (let chunks = chunks_of llm_reply;
          w' = w\<lparr>effects := effects w @ map Murf_post chunks\<rparr>
      in case gather_murf_audio env chunks of
           Inl e \<Rightarrow> (Inl e, w')
         | Inr audio_urls \<Rightarrow>
             (case audio_urls of
                [] \<Rightarrow> (Inl (Other IndexError), w')
              | u # us \<Rightarrow>
                  (Inr \<lparr>user_text = utext, llm_text = JStr llm_reply, audio_url = u\<rparr>, w')))"

definition gemini_contents :: "world \<Rightarrow> string \<Rightarrow> content list" where
  "gemini_contents w session_id =
     \<lparr>content_role = ''model'', parts = [\<lparr>part_text = JStr PERSONA_PROMPT\<rparr>]\<rparr>
       # build_gemini_contents w session_id 5"

definition conversation_flow ::
  "env \<Rightarrow> string \<Rightarrow> string \<Rightarrow> world \<Rightarrow> (exn + response) \<times> world" where
  "conversation_flow env session_id utext w =
     (let w1 = add_message_to_history session_id ''user'' (JStr utext) w;
          contents = gemini_contents w1 session_id;
          w2 = perform (Gemini_post contents) w1
      in case gemini_post env contents of
           Raises e \<Rightarrow> (Inl (HTTPException 500 (Gemini_call_failed (Client_failure e))), w2)
         | Responds status body js \<Rightarrow>
             if status \<noteq> 200
             then (Inl (HTTPException 500 (Gemini_call_failed (Api_error body))), w2)
             else
               (case js of
                  None \<Rightarrow>
                    (Inl (HTTPException 500 (Gemini_call_failed (Client_failure JSONDecodeError))),
                     w2)
                | Some llm_data \<Rightarrow>
                    (case extract_llm_reply llm_data of
                       None \<Rightarrow> (Inl (HTTPException 500 LLM_reply_missing), w2)
                     | Some llm_reply \<Rightarrow>
                         if llm_reply = []
                         then (Inl (HTTPException 500 LLM_reply_missing), w2)
                         else synthesize env utext llm_reply
                                (add_message_to_history session_id ''model''
                                   (JStr llm_reply) w2))))"

definition search_skill ::
  "env \<Rightarrow> string \<Rightarrow> string \<Rightarrow> world \<Rightarrow> (exn + response) \<times> world" where
  "search_skill env session_id utext w =
     (let search_query = strip (drop (length ''search:'') utext)
      in case simple_web_search env search_query w of
           (Inl e, w1) \<Rightarrow> (Inl (Other e), w1)
         | (Inr search_result, w1) \<Rightarrow>
             (Inr \<lparr>user_text = utext, llm_text = search_result, audio_url = JStr []\<rparr>,
              add_message_to_history session_id ''model'' search_result
                (add_message_to_history session_id ''user'' (JStr utext) w1)))"

definition news_skill ::
  "config \<Rightarrow> env \<Rightarrow> string \<Rightarrow> string \<Rightarrow> world \<Rightarrow> (exn + response) \<times> world" where
  "news_skill cfg env session_id utext w =
     (let topic = strip (drop (length ''news:'') utext)
      in case get_latest_news cfg env topic w of
           (Inl e, w1) \<Rightarrow> (Inl (Other e), w1)
         | (Inr news_report, w1) \<Rightarrow>
             (Inr \<lparr>user_text = utext, llm_text = news_report, audio_url = JStr []\<rparr>,
              add_message_to_history session_id ''model'' news_report
                (add_message_to_history session_id ''user'' (JStr utext) w1)))"

text \<open>
  The handler of \<open>POST /agent/chat/{session_id}\<close>. It starts once the upload has been
  copied into the temporary file (the \<open>with\<close> block has run to its end), and returns
  the response or the exception that leaves it, with the world it leaves behind.
\<close>

definition chat_with_history ::
  "config \<Rightarrow> env \<Rightarrow> string \<Rightarrow> world \<Rightarrow> (exn + response) \<times> world" where
  "chat_with_history cfg env session_id w =
     (let temp_path = temp_name env;
          w1 = w\<lparr>files := insert temp_path (files w)\<rparr>
      in case transcribe_audio env temp_path w1 of
           (Inl e, w2) \<Rightarrow> (Inl e, w2)
         | (Inr t, w2) \<Rightarrow>
             (case checked_text t of
                Inl e \<Rightarrow> (Inl e, w2)
              | Inr utext \<Rightarrow>
                  if startswith (lower utext) ''search:''
                  then search_skill env session_id utext w2
                  else if startswith (lower utext) ''news:''
                  then news_skill cfg env session_id utext w2
                  else conversation_flow env session_id utext w2))"

section \<open>Vocabulary for the statements\<close>

text \<open>
  The world once the upload has been saved under the temporary name, transcribed, and
  removed by the \<open>finally\<close> clause: the file is gone and one successful unlink is on
  record.
\<close>

definition after_unlink :: "env \<Rightarrow> world \<Rightarrow> world" where
  "after_unlink env w =
     w\<lparr>files := files w - {temp_name env},
       effects := effects w @ [Unlink (temp_name env) True]\<rparr>"

text \<open>A sequence of appends \<open>(session, role, text)\<close>, applied in order.\<close>

fun add_messages :: "(string \<times> string \<times> json) list \<Rightarrow> world \<Rightarrow> world" where
  "add_messages [] w = w"
| "add_messages ((session_id, r, t) # rest) w =
     add_messages rest (add_message_to_history session_id r t w)"

definition messages_of :: "string \<Rightarrow> (string \<times> string \<times> json) list \<Rightarrow> message list" where
  "messages_of session_id appends =
     map (\<lambda>(s, r, t). \<lparr>role = r, msg_text = t\<rparr>)
         (filter (\<lambda>(s, r, t). s = session_id) appends)"

text \<open>The shape in which a message of the log enters the prompt.\<close>

definition to_content :: "message \<Rightarrow> content" where
  "to_content msg = \<lparr>content_role = role msg, parts = [\<lparr>part_text = msg_text msg\<rparr>]\<rparr>"

definition persona_entry :: content where
  "persona_entry = \<lparr>content_role = ''model'', parts = [\<lparr>part_text = JStr PERSONA_PROMPT\<rparr>]\<rparr>"

text \<open>
  The world once the Conversation Flow has appended the user text and posted the prompt.
\<close>

definition asked :: "env \<Rightarrow> string \<Rightarrow> string \<Rightarrow> world \<Rightarrow> world" where
  "asked env sid u w =
     perform (Gemini_post (gemini_contents
                             (add_message_to_history sid ''user'' (JStr u) (after_unlink env w))
                             sid))
       (add_message_to_history sid ''user'' (JStr u) (after_unlink env w))"

text \<open>The address the News Skill requests for a topic.\<close>

definition news_url :: "env \<Rightarrow> string \<Rightarrow> string \<Rightarrow> string" where
  "news_url env key topic =
     ''https://newsapi.org/v2/top-headlines?q='' @ quote_plus env topic @
     ''&language=en&pageSize=5&apiKey='' @ key"

text \<open>A sample process and sample collaborators, for concrete runs.\<close>

definition sample_cfg :: config where
  "sample_cfg =
     \<lparr>ASSEMBLYAI_API_KEY = Some ''aai-key'', MURF_API_KEY = Some ''murf-key'',
      GEMINI_API_KEY = Some ''gemini-key'', NEWSAPI_KEY = Some ''news-key''\<rparr>"

definition fresh_world :: world where
  "fresh_world = \<lparr>chat_history_store = Map.empty, files = {}, effects = []\<rparr>"

definition reply_body :: "string \<Rightarrow> json" where
  "reply_body s =
     JObj [(''candidates'',
            JArr [JObj [(''content'', JObj [(''parts'', JArr [JObj [(''text'', JStr s)]])])]])]"

definition heard :: "string \<Rightarrow> pyexn + transcript" where
  "heard s = Inr \<lparr>transcript_error = None, transcript_text = Some s\<rparr>"

definition sample_env :: env where
  "sample_env =
     \<lparr>temp_name = ''uploads/tmp0001.wav'',
      transcribe = (\<lambda>p. heard ''  Hello Leo ''),
      http_get = (\<lambda>url. Responds 200 [] (Some (JObj [(''AbstractText'', JStr ''Sunny.'')]))),
      gemini_post = (\<lambda>cs. Responds 200 [] (Some (reply_body '' Hi there ''))),
      murf_post = (\<lambda>i chunk. Responds 200 []
                     (Some (JObj [(''audioFile'',
                                   JStr (if i = 0 then ''https://murf.example/first.mp3''
                                         else ''https://murf.example/later.mp3''))]))),
      quote_plus = (\<lambda>s. s),
      py_str = (\<lambda>v. ''?'')\<rparr>"

text \<open>
  A character \<open>c\<close> is the character \<open>l\<close> in either case: \<open>l\<close> itself, or the capital of
  the small letter \<open>l\<close>.
\<close>

definition any_case :: "char \<Rightarrow> char \<Rightarrow> bool" where
  "any_case c l =
     (c = l \<or> (97 \<le> (of_char l :: nat) \<and> (of_char l :: nat) \<le> 122
                \<and> (of_char c :: nat) + 32 = of_char l))"

text \<open>A reply of 7000 characters.\<close>

definition long_reply :: string where
  "long_reply = replicate 7000 (CHR ''a'')"

section \<open>Properties of the chunk split\<close>

lemma py_range_stop: "stop \<le> start \<Longrightarrow> py_range start stop step = []"
  by (simp add: py_range.simps)

lemma py_range_step:
  "0 < step \<Longrightarrow> start < stop \<Longrightarrow>
   py_range start stop step = start # py_range (start + step) stop step"
  by (subst py_range.simps) simp

lemma py_range_length:
  "0 < step \<Longrightarrow> length (py_range start stop step) = (stop - start + step - 1) div step"
proof (induction start stop step rule: py_range.induct)
  case (1 start stop step)
  show ?case
  proof (cases "stop \<le> start")
    case True
    with "1.prems" show ?thesis by (simp add: py_range_stop)
  next
    case False
    then have lt: "start < stop" by simp
    have ih: "length (py_range (start + step) stop step)
                = (stop - (start + step) + step - 1) div step"
      using "1.IH" "1.prems" False by simp
    have e1: "stop - start + step - 1 = (stop - start - 1) + step" using lt by simp
    have e2: "((stop - start - 1) + step) div step = (stop - start - 1) div step + 1"
      using "1.prems" div_add_self2 [of step "stop - start - 1"] by simp
    show ?thesis
    proof (cases "start + step \<le> stop")
      case True
      then have "stop - (start + step) + step - 1 = stop - start - 1"
        using "1.prems" by simp
      with ih e1 e2 lt "1.prems" show ?thesis by (simp add: py_range_step)
    next
      case False
      then have "stop - (start + step) + step - 1 = step - 1" by simp
      moreover have "(step - 1) div step = 0" using "1.prems" by simp
      moreover have "(stop - start - 1) div step = 0" using False lt by simp
      ultimately show ?thesis using ih e1 e2 lt "1.prems" by (simp add: py_range_step)
    qed
  qed
qed

lemma py_range_nth:
  "0 < step \<Longrightarrow> k < length (py_range start stop step) \<Longrightarrow>
   py_range start stop step ! k = start + k * step"
proof (induction start stop step arbitrary: k rule: py_range.induct)
  case (1 start stop step)
  show ?case
  proof (cases "stop \<le> start")
    case True
    with "1.prems" show ?thesis by (simp add: py_range_stop)
  next
    case False
    then have lt: "start < stop" by simp
    show ?thesis
    proof (cases k)
      case 0
      with lt "1.prems" show ?thesis by (simp add: py_range_step)
    next
      case (Suc j)
      with lt "1.prems" have "j < length (py_range (start + step) stop step)"
        by (simp add: py_range_step)
      then have "py_range (start + step) stop step ! j = start + step + j * step"
        using "1.IH" "1.prems" False by simp
      with Suc lt "1.prems" show ?thesis by (simp add: py_range_step)
    qed
  qed
qed

lemma concat_slices_from:
  "0 < n \<Longrightarrow> concat (map (\<lambda>i. py_slice i (i + n) s) (py_range start (length s) n)) = drop start s"
proof (induction start "length s" n rule: py_range.induct)
  case (1 start step)
  show ?case
  proof (cases "length s \<le> start")
    case True
    then show ?thesis by (simp add: py_range_stop)
  next
    case False
    then have lt: "start < length s" by simp
    have ih: "concat (map (\<lambda>i. py_slice i (i + step) s) (py_range (start + step) (length s) step))
                = drop (start + step) s"
      using "1.hyps" "1.prems" False by simp
    have "take step (drop start s) @ drop (start + step) s = drop start s"
      by (metis add.commute append_take_drop_id drop_drop)
    with ih lt "1.prems" show ?thesis by (simp add: py_range_step py_slice_def)
  qed
qed

lemma split_chunks_concat: "0 < n \<Longrightarrow> concat (split_chunks n s) = s"
  by (simp add: split_chunks_def concat_slices_from)

lemma split_chunks_length: "0 < n \<Longrightarrow> length (split_chunks n s) = (length s + n - 1) div n"
  by (simp add: split_chunks_def py_range_length)

lemma split_chunks_nth:
  "0 < n \<Longrightarrow> k < length (split_chunks n s) \<Longrightarrow>
   split_chunks n s ! k = take n (drop (k * n) s)"
  by (simp add: split_chunks_def py_range_nth py_slice_def)

lemma split_chunks_bound: "c \<in> set (split_chunks n s) \<Longrightarrow> length c \<le> n"
  by (auto simp: split_chunks_def py_slice_def)

lemma split_chunks_empty: "split_chunks n [] = []"
  by (simp add: split_chunks_def py_range_stop)

lemma chunks_of_7000:
  "chunks_of (replicate 7000 c) = [replicate 3000 c, replicate 3000 c, replicate 1000 c]"
  by (simp add: chunks_of_def split_chunks_def maxlen_def py_range_step py_range_stop
      py_slice_def)

text \<open>
  C1, as the claim states it, at the empty text: the comprehension ranges over
  \<open>range(0, 0, 3000)\<close>, which is empty, so the split yields no chunk, not one.
\<close>

theorem chunks_of_empty_counterexample:
  "chunks_of [] = []
   \<and> length (chunks_of []) \<noteq> max 1 ((length ([] :: string) + 2999) div 3000)"
  by (simp add: chunks_of_def split_chunks_empty)

text \<open>
  C1 (amended): a text of length \<open>L\<close> is split into exactly \<open>\<lceil>L / 3000\<rceil>\<close> chunks,
  which is \<open>max 1 \<lceil>L / 3000\<rceil>\<close> for every non-empty text; each chunk has at most 3000
  characters, the \<open>k\<close>-th chunk is the window of the text starting at \<open>3000 * k\<close>
  (left to right, no overlap), and the chunks concatenated in order give the text back.
\<close>

theorem chunks_of_split:
  "length (chunks_of s) = (length s + 2999) div 3000
   \<and> (s \<noteq> [] \<longrightarrow> length (chunks_of s) = max 1 ((length s + 2999) div 3000))
   \<and> (\<forall>c \<in> set (chunks_of s). length c \<le> 3000)
   \<and> (\<forall>k < length (chunks_of s). chunks_of s ! k = take 3000 (drop (3000 * k) s))
   \<and> concat (chunks_of s) = s"
proof -
  have n: "0 < maxlen" by (simp add: maxlen_def)
  have len: "length (chunks_of s) = (length s + 2999) div 3000"
    using split_chunks_length [OF n, of s] by (simp add: chunks_of_def maxlen_def)
  have pos: "s \<noteq> [] \<longrightarrow> length (chunks_of s) = max 1 ((length s + 2999) div 3000)"
  proof
    assume "s \<noteq> []"
    then have "3000 \<le> length s + 2999" by (cases s) simp_all
    then have "1 \<le> (length s + 2999) div 3000" by (simp add: div_greater_zero_iff Suc_le_eq)
    with len show "length (chunks_of s) = max 1 ((length s + 2999) div 3000)" by simp
  qed
  have bound: "\<forall>c \<in> set (chunks_of s). length c \<le> 3000"
    using split_chunks_bound [of _ maxlen s] by (auto simp: chunks_of_def maxlen_def)
  have nth: "\<forall>k < length (chunks_of s). chunks_of s ! k = take 3000 (drop (3000 * k) s)"
    using split_chunks_nth [OF n, of _ s] by (simp add: chunks_of_def maxlen_def mult.commute)
  have cat: "concat (chunks_of s) = s"
    using split_chunks_concat [OF n, of s] by (simp add: chunks_of_def)
  from len pos bound nth cat show ?thesis by blast
qed

theorem chunks_of_split_witness:
  "length (chunks_of (replicate 7000 (CHR ''a''))) = 3
   \<and> chunks_of (replicate 7000 (CHR ''a'')) ! 2 = replicate 1000 (CHR ''a'')
   \<and> concat (chunks_of (replicate 7000 (CHR ''a''))) = replicate 7000 (CHR ''a'')"
  using chunks_of_split [of "replicate 7000 (CHR ''a'')"] by simp


section \<open>The history store through the endpoint\<close>

lemma get_chat_history_cong:
  "chat_history_store w = chat_history_store w' \<Longrightarrow>
   get_chat_history w sid = get_chat_history w' sid"
  by (simp add: get_chat_history_def)

lemma get_chat_history_add:
  "get_chat_history (add_message_to_history s r t w) sid =
     (if sid = s then get_chat_history w sid @ [\<lparr>role = r, msg_text = t\<rparr>]
      else get_chat_history w sid)"
  by (simp add: get_chat_history_def add_message_to_history_def split: option.splits)

lemma add_message_files [simp]: "files (add_message_to_history s r t w) = files w"
  by (simp add: add_message_to_history_def split: option.splits)

lemma add_message_effects [simp]: "effects (add_message_to_history s r t w) = effects w"
  by (simp add: add_message_to_history_def split: option.splits)

lemma perform_store [simp]: "chat_history_store (perform e w) = chat_history_store w"
  by (simp add: perform_def)

lemma perform_history [simp]: "get_chat_history (perform e w) sid = get_chat_history w sid"
  by (simp add: get_chat_history_def)

lemma after_unlink_history [simp]:
  "get_chat_history (after_unlink env w) sid = get_chat_history w sid"
  by (simp add: get_chat_history_def after_unlink_def)

lemma os_unlink_store [simp]: "chat_history_store (snd (os_unlink p w)) = chat_history_store w"
  by (simp add: os_unlink_def)

lemma transcribe_audio_store:
  "chat_history_store (snd (transcribe_audio env p w)) = chat_history_store w"
  by (simp add: transcribe_audio_def os_unlink_def split: sum.splits prod.splits)

lemma simple_web_search_store:
  "chat_history_store (snd (simple_web_search env q w)) = chat_history_store w"
  by (simp add: simple_web_search_def Let_def split: http_result.splits option.splits)

lemma get_latest_news_store:
  "chat_history_store (snd (get_latest_news cfg env q w)) = chat_history_store w"
  by (simp add: get_latest_news_def Let_def split: http_result.splits option.splits)

lemma synthesize_store:
  "chat_history_store (snd (synthesize env u r w)) = chat_history_store w"
  by (simp add: synthesize_def Let_def split: sum.splits list.splits)

lemma synthesize_history:
  "get_chat_history (snd (synthesize env u r w)) sid = get_chat_history w sid"
  by (rule get_chat_history_cong) (rule synthesize_store)

lemma transcribe_audio_history:
  "get_chat_history (snd (transcribe_audio env p w)) sid = get_chat_history w sid"
  by (rule get_chat_history_cong) (rule transcribe_audio_store)

lemma get_add_messages:
  "get_chat_history (add_messages appends w) sid
     = get_chat_history w sid @ messages_of sid appends"
  by (induction appends w rule: add_messages.induct)
     (auto simp: messages_of_def get_chat_history_add)

lemma prefix_add:
  "prefix (get_chat_history w sid) (get_chat_history (add_message_to_history s r t w) sid)"
  by (simp add: get_chat_history_add)

lemma search_skill_grows:
  "prefix (get_chat_history w sid') (get_chat_history (snd (search_skill env sid u w)) sid')"
proof -
  have "get_chat_history (snd (simple_web_search env q w)) sid' = get_chat_history w sid'" for q
    by (rule get_chat_history_cong) (rule simple_web_search_store)
  then show ?thesis
    by (auto simp: search_skill_def Let_def get_chat_history_add split: prod.splits sum.splits)
       (metis snd_conv prefix_order.refl prefixI append.assoc)+
qed

lemma news_skill_grows:
  "prefix (get_chat_history w sid') (get_chat_history (snd (news_skill cfg env sid u w)) sid')"
proof -
  have "get_chat_history (snd (get_latest_news cfg env q w)) sid' = get_chat_history w sid'" for q
    by (rule get_chat_history_cong) (rule get_latest_news_store)
  then show ?thesis
    by (auto simp: news_skill_def Let_def get_chat_history_add split: prod.splits sum.splits)
       (metis snd_conv prefix_order.refl prefixI append.assoc)+
qed

lemma conversation_flow_grows:
  "prefix (get_chat_history w sid') (get_chat_history (snd (conversation_flow env sid u w)) sid')"
  by (simp add: conversation_flow_def Let_def synthesize_history get_chat_history_add
      split: http_result.splits option.splits)

lemma chat_with_history_grows:
  "prefix (get_chat_history w sid')
     (get_chat_history (snd (chat_with_history cfg env sid w)) sid')"
proof -
  let ?w1 = "w\<lparr>files := insert (temp_name env) (files w)\<rparr>"
  obtain r w2 where t: "transcribe_audio env (temp_name env) ?w1 = (r, w2)"
    by (cases "transcribe_audio env (temp_name env) ?w1")
  have "get_chat_history w2 sid' = get_chat_history ?w1 sid'"
    using transcribe_audio_history [of env "temp_name env" ?w1 sid'] t by simp
  then have w2: "get_chat_history w2 sid' = get_chat_history w sid'"
    by (simp add: get_chat_history_def)
  show ?thesis
    using t w2 search_skill_grows [of w2 sid' env sid] news_skill_grows [of w2 sid' cfg env sid]
      conversation_flow_grows [of w2 sid' env sid]
    by (simp add: chat_with_history_def Let_def split: sum.splits)
qed

section \<open>The ways through the endpoint\<close>

lemma transcribe_audio_returns:
  "transcribe env p = Inr t \<Longrightarrow> p \<in> files w \<Longrightarrow>
   transcribe_audio env p w = (Inr t, perform (Unlink p True) (w\<lparr>files := files w - {p}\<rparr>))"
  by (simp add: transcribe_audio_def os_unlink_def)

lemma transcribe_audio_raises:
  "transcribe env p = Inl e \<Longrightarrow> p \<in> files w \<Longrightarrow>
   transcribe_audio env p w =
     (Inl (Other FileNotFoundError),
      perform (Unlink p False) (perform (Unlink p True) (w\<lparr>files := files w - {p}\<rparr>)))"
  by (simp add: transcribe_audio_def os_unlink_def perform_def)

lemma chat_with_history_routed:
  assumes "transcribe env (temp_name env) = Inr t" and "checked_text t = Inr u"
  shows "chat_with_history cfg env sid w =
           (if startswith (lower u) ''search:''
            then search_skill env sid u (after_unlink env w)
            else if startswith (lower u) ''news:''
            then news_skill cfg env sid u (after_unlink env w)
            else conversation_flow env sid u (after_unlink env w))"
  using assms
  by (simp add: chat_with_history_def Let_def transcribe_audio_returns perform_def
      after_unlink_def)

lemma chat_with_history_rejected:
  assumes "transcribe env (temp_name env) = Inr t" and "checked_text t = Inl e"
  shows "chat_with_history cfg env sid w = (Inl e, after_unlink env w)"
  using assms
  by (simp add: chat_with_history_def Let_def transcribe_audio_returns perform_def
      after_unlink_def)

lemma chat_with_history_transcription_raises:
  assumes "transcribe env (temp_name env) = Inl e"
  shows "chat_with_history cfg env sid w =
           (Inl (Other FileNotFoundError),
            w\<lparr>files := files w - {temp_name env},
              effects := effects w @ [Unlink (temp_name env) True, Unlink (temp_name env) False]\<rparr>)"
  using assms
  by (simp add: chat_with_history_def Let_def transcribe_audio_raises perform_def)

lemma strip_all_space: "list_all isspace s \<Longrightarrow> strip s = []"
proof -
  assume "list_all isspace s"
  then have d: "dropWhile isspace s = []" by (induction s) simp_all
  show ?thesis unfolding strip_def d by simp
qed

lemma checked_text_bad:
  assumes "truthy_opt (transcript_error t) \<or> transcript_text t = None
           \<or> (\<exists>txt. transcript_text t = Some txt \<and> list_all isspace txt)"
  shows "checked_text t = Inl (HTTPException 400 (Transcription_error (error_or_empty_text t)))"
  using assms by (auto simp: checked_text_def Let_def strip_all_space split: option.splits)

section \<open>The temporary file\<close>

text \<open>
  C2, at a transcription that raises: the claim asks for one deletion of the temporary
  file on every way out. The handler of \<open>except Exception\<close> unlinks the file, and the
  \<open>finally\<close> clause unlinks the same path again; the second call finds no file and
  raises \<open>FileNotFoundError\<close>, which replaces the 500 response the handler was raising.
\<close>

theorem transcription_failure_unlinks_twice:
  assumes "transcribe env (temp_name env) = Inl e"
  shows "fst (chat_with_history cfg env sid w) = Inl (Other FileNotFoundError)
         \<and> effects (snd (chat_with_history cfg env sid w))
             = effects w @ [Unlink (temp_name env) True, Unlink (temp_name env) False]
         \<and> temp_name env \<notin> files (snd (chat_with_history cfg env sid w))"
  using chat_with_history_transcription_raises [OF assms, of cfg sid w] by simp

theorem transcription_failure_unlinks_twice_witness:
  "fst (chat_with_history sample_cfg
          (sample_env\<lparr>transcribe := \<lambda>p. Inl (ClientError ''connection reset'')\<rparr>)
          ''s1'' fresh_world) = Inl (Other FileNotFoundError)
   \<and> effects (snd (chat_with_history sample_cfg
          (sample_env\<lparr>transcribe := \<lambda>p. Inl (ClientError ''connection reset'')\<rparr>)
          ''s1'' fresh_world))
       = [Unlink ''uploads/tmp0001.wav'' True, Unlink ''uploads/tmp0001.wav'' False]"
  using transcription_failure_unlinks_twice
    [of "sample_env\<lparr>transcribe := \<lambda>p. Inl (ClientError ''connection reset'')\<rparr>"
        "ClientError ''connection reset''" sample_cfg "''s1''" fresh_world]
  by (simp add: sample_env_def fresh_world_def)

section \<open>The transcript check\<close>

text \<open>
  C9: when the transcription returns a transcript that carries an error, has no text, or
  has a text of whitespace only (the empty text included), the endpoint answers with the
  400 error, the history store is what it was before the request, and the only effect
  is the removal of the temporary file.
\<close>

theorem bad_transcript_rejected:
  assumes "transcribe env (temp_name env) = Inr t"
    and "truthy_opt (transcript_error t) \<or> transcript_text t = None
         \<or> (\<exists>txt. transcript_text t = Some txt \<and> list_all isspace txt)"
  shows "fst (chat_with_history cfg env sid w)
           = Inl (HTTPException 400 (Transcription_error (error_or_empty_text t)))
         \<and> chat_history_store (snd (chat_with_history cfg env sid w)) = chat_history_store w
         \<and> effects (snd (chat_with_history cfg env sid w))
             = effects w @ [Unlink (temp_name env) True]"
  using chat_with_history_rejected [OF assms(1) checked_text_bad [OF assms(2)], of cfg sid w]
  by (simp add: after_unlink_def)

theorem bad_transcript_rejected_witness:
  "fst (chat_with_history sample_cfg (sample_env\<lparr>transcribe := \<lambda>p. heard ''   ''\<rparr>)
          ''s1'' fresh_world)
     = Inl (HTTPException 400 (Transcription_error ''Empty text''))
   \<and> chat_history_store
       (snd (chat_with_history sample_cfg (sample_env\<lparr>transcribe := \<lambda>p. heard ''   ''\<rparr>)
          ''s1'' fresh_world)) = Map.empty"
  using bad_transcript_rejected
    [of "sample_env\<lparr>transcribe := \<lambda>p. heard ''   ''\<rparr>"
        "\<lparr>transcript_error = None, transcript_text = Some ''   ''\<rparr>"
        sample_cfg "''s1''" fresh_world]
  by (simp add: sample_env_def heard_def isspace_def error_or_empty_text_def fresh_world_def
      truthy_opt_def)

section \<open>The history store is append-only\<close>

text \<open>
  C8: after a sequence of appends, the log of a session is its former log followed by
  the messages appended to that session, in append order; for a session unknown before
  and \<open>N\<close> appends to it, the log is exactly those \<open>N\<close> messages. An append and a
  whole request leave the former log of every session as a prefix of the new one: nothing
  is removed or reordered.
\<close>

theorem history_append_only:
  "get_chat_history (add_messages appends w) sid
     = get_chat_history w sid @ messages_of sid appends
   \<and> (chat_history_store w sid = None \<and> list_all (\<lambda>a. fst a = sid) appends \<longrightarrow>
        get_chat_history (add_messages appends w) sid
          = map (\<lambda>(s, r, t). \<lparr>role = r, msg_text = t\<rparr>) appends
        \<and> length (get_chat_history (add_messages appends w) sid) = length appends)
   \<and> prefix (get_chat_history w sid)
        (get_chat_history (add_message_to_history sid' r t w) sid)
   \<and> prefix (get_chat_history w sid)
        (get_chat_history (snd (chat_with_history cfg env sid' w)) sid)"
proof -
  have all: "list_all (\<lambda>a. fst a = sid) appends \<Longrightarrow>
             filter (\<lambda>(s, r, t). s = sid) appends = appends"
    by (induction appends) auto
  have fresh: "chat_history_store w sid = None \<Longrightarrow> get_chat_history w sid = []"
    by (simp add: get_chat_history_def)
  show ?thesis
    using all fresh
    by (simp add: get_add_messages prefix_add chat_with_history_grows messages_of_def)
qed

theorem history_append_only_witness:
  "get_chat_history
     (add_messages [(''s1'', ''user'', JStr ''hi''), (''s1'', ''model'', JStr ''hello'')]
        fresh_world) ''s1''
     = [\<lparr>role = ''user'', msg_text = JStr ''hi''\<rparr>, \<lparr>role = ''model'', msg_text = JStr ''hello''\<rparr>]
   \<and> prefix [] (get_chat_history
                  (snd (chat_with_history sample_cfg sample_env ''s1'' fresh_world)) ''s1'')"
proof -
  have e: "get_chat_history fresh_world ''s1'' = []"
    by (simp add: get_chat_history_def fresh_world_def)
  show ?thesis
    using e history_append_only
      [of "[(''s1'', ''user'', JStr ''hi''), (''s1'', ''model'', JStr ''hello'')]"
          fresh_world "''s1''" "''s1''" "''user''" "JStr ''x''" sample_cfg sample_env]
    by (simp add: messages_of_def)
qed


section \<open>Startup and the news key\<close>

lemma and_then_Inr_iff: "and_then m f = Inr y \<longleftrightarrow> (\<exists>x. m = Inr x \<and> f x = Inr y)"
  by (cases m) simp_all

lemma news_answer_configured: "news_answer env topic data \<noteq> Inr news_not_configured"
  by (auto simp: news_answer_def news_not_configured_def and_then_Inr_iff)

lemma startup_returns: "startup cfg = Inr cfg' \<Longrightarrow> cfg' = cfg \<and> truthy_opt (NEWSAPI_KEY cfg)"
  by (auto simp: startup_def split: option.splits if_splits)

lemma startup_without_news_key:
  "\<not> truthy_opt (NEWSAPI_KEY cfg) \<Longrightarrow> \<exists>key. startup cfg = Inl (key @ '' not set in environment'')"
  by (auto simp: startup_def split: option.splits if_splits)

text \<open>
  C10: in a process that got past startup, the configuration is the one read from the
  environment and its news key is a non-empty string; so every run of
  \<open>get_latest_news\<close> goes past the key check and issues its request, and never returns
  the not-configured message. A configuration whose news key is unset or empty does not
  get past startup: the loop over the keys raises.
\<close>

theorem news_key_always_configured:
  assumes "startup cfg = Inr cfg'"
  shows "cfg' = cfg
         \<and> (\<exists>key. NEWSAPI_KEY cfg' = Some key \<and> key \<noteq> []
               \<and> effects (snd (get_latest_news cfg' env topic w))
                   = effects w @ [Http_get (news_url env key topic)])
         \<and> fst (get_latest_news cfg' env topic w) \<noteq> Inr news_not_configured
         \<and> (\<not> truthy_opt (NEWSAPI_KEY c0) \<longrightarrow> (\<exists>msg. startup c0 = Inl msg))"
proof -
  from startup_returns [OF assms] have c: "cfg' = cfg" and k: "truthy_opt (NEWSAPI_KEY cfg)"
    by simp_all
  from k obtain key where key: "NEWSAPI_KEY cfg = Some key" "key \<noteq> []"
    by (auto simp: truthy_opt_def split: option.splits)
  have eff: "effects (snd (get_latest_news cfg env topic w))
               = effects w @ [Http_get (news_url env key topic)]"
    using key
    by (simp add: get_latest_news_def Let_def perform_def news_url_def
        split: http_result.splits option.splits)
  have res: "fst (get_latest_news cfg env topic w) \<noteq> Inr news_not_configured"
    using key
    by (simp add: get_latest_news_def Let_def news_answer_configured
        split: http_result.splits option.splits)
       (simp add: news_not_configured_def)
  have absent: "\<not> truthy_opt (NEWSAPI_KEY c0) \<longrightarrow> (\<exists>msg. startup c0 = Inl msg)"
    using startup_without_news_key [of c0] by blast
  from c key eff res absent show ?thesis by simp
qed

theorem news_key_always_configured_witness:
  "startup sample_cfg = Inr sample_cfg
   \<and> effects (snd (get_latest_news sample_cfg sample_env ''rain'' fresh_world))
       = [Http_get ''https://newsapi.org/v2/top-headlines?q=rain&language=en&pageSize=5&apiKey=news-key'']
   \<and> fst (get_latest_news sample_cfg sample_env ''rain'' fresh_world) \<noteq> Inr news_not_configured
   \<and> (\<exists>msg. startup (sample_cfg\<lparr>NEWSAPI_KEY := None\<rparr>) = Inl msg)"
proof -
  have s: "startup sample_cfg = Inr sample_cfg"
    by (simp add: startup_def sample_cfg_def truthy_opt_def)
  show ?thesis
    using s news_key_always_configured
      [OF s, of sample_env "''rain''" fresh_world "sample_cfg\<lparr>NEWSAPI_KEY := None\<rparr>"]
    by (simp add: sample_cfg_def sample_env_def fresh_world_def news_url_def truthy_opt_def)
qed


section \<open>The Conversation Flow\<close>

lemma chunks_of_length: "length (chunks_of s) = (length s + 2999) div 3000"
  using split_chunks_length [of maxlen s] by (simp add: chunks_of_def maxlen_def)

lemma chunks_of_nonempty: "s \<noteq> [] \<Longrightarrow> 0 < length (chunks_of s)"
  by (cases s) (simp_all add: chunks_of_length div_greater_zero_iff)

lemma chunks_of_nth: "k < length (chunks_of s) \<Longrightarrow> chunks_of s ! k = take 3000 (drop (3000 * k) s)"
  using split_chunks_nth [of maxlen k s] by (simp add: chunks_of_def maxlen_def mult.commute)

lemma py_slice_from_last: "0 < n \<Longrightarrow> py_slice_from (- int n) xs = drop (length xs - n) xs"
  by (simp add: py_slice_from_def Let_def max_def nat_diff_distrib') 

lemma gemini_contents_window:
  "gemini_contents w sid =
     persona_entry # map to_content
       (drop (length (get_chat_history w sid) - 5) (get_chat_history w sid))"
proof -
  have "py_slice_from (- 5) (get_chat_history w sid)
          = drop (length (get_chat_history w sid) - 5) (get_chat_history w sid)"
    using py_slice_from_last [of 5 "get_chat_history w sid"] by simp
  then show ?thesis
    by (simp add: gemini_contents_def build_gemini_contents_def persona_entry_def
        to_content_def [abs_def])
qed

lemma gemini_contents_cong:
  "get_chat_history w sid = get_chat_history w' sid \<Longrightarrow>
   gemini_contents w sid = gemini_contents w' sid"
  by (simp add: gemini_contents_window)

lemma simple_web_search_effects:
  "effects (snd (simple_web_search env q w))
     = effects w @ [Http_get (''https://api.duckduckgo.com/?q='' @ q @ ''&format=json'')]"
  by (simp add: simple_web_search_def Let_def perform_def split: http_result.splits option.splits)

lemma get_latest_news_effects:
  "\<exists>gets. effects (snd (get_latest_news cfg env q w)) = effects w @ map Http_get gets"
proof (cases "truthy_opt (NEWSAPI_KEY cfg)")
  case True
  then obtain key where "NEWSAPI_KEY cfg = Some key" "key \<noteq> []"
    by (auto simp: truthy_opt_def split: option.splits)
  then have "effects (snd (get_latest_news cfg env q w))
               = effects w @ map Http_get [news_url env key q]"
    by (simp add: get_latest_news_def Let_def perform_def news_url_def
        split: http_result.splits option.splits)
  then show ?thesis by blast
next
  case False
  then have "effects (snd (get_latest_news cfg env q w)) = effects w @ map Http_get []"
    by (auto simp: get_latest_news_def truthy_opt_def split: option.splits)
  then show ?thesis by blast
qed

lemma synthesize_effects:
  "effects (snd (synthesize env u r w)) = effects w @ map Murf_post (chunks_of r)"
  by (simp add: synthesize_def Let_def split: sum.splits list.splits)

lemma conversation_flow_effects:
  "\<exists>chunks. effects (snd (conversation_flow env sid u w))
     = effects w
       @ Gemini_post (gemini_contents (add_message_to_history sid ''user'' (JStr u) w) sid)
         # map Murf_post chunks"
proof -
  let ?w1 = "add_message_to_history sid ''user'' (JStr u) w"
  let ?cs = "gemini_contents ?w1 sid"
  have a: "effects (perform (Gemini_post ?cs) ?w1) = effects w @ Gemini_post ?cs # map Murf_post []"
    by (simp add: perform_def)
  have b: "effects (snd (synthesize env u r (add_message_to_history sid ''model'' (JStr r)
                (perform (Gemini_post ?cs) ?w1))))
             = effects w @ Gemini_post ?cs # map Murf_post (chunks_of r)" for r
    by (simp add: synthesize_effects perform_def)
  show ?thesis
    unfolding conversation_flow_def Let_def
    using a b by (auto split: http_result.splits option.splits)
qed

lemma search_skill_effects:
  "\<exists>gets. effects (snd (search_skill env sid u w)) = effects w @ map Http_get gets"
proof -
  let ?q = "strip (drop (length ''search:'') u)"
  have "effects (snd (simple_web_search env ?q w))
          = effects w @ map Http_get [''https://api.duckduckgo.com/?q='' @ ?q @ ''&format=json'']"
    by (simp add: simple_web_search_effects)
  then have "effects (snd (search_skill env sid u w))
          = effects w @ map Http_get [''https://api.duckduckgo.com/?q='' @ ?q @ ''&format=json'']"
    by (auto simp: search_skill_def Let_def split: prod.splits sum.splits)
  then show ?thesis by blast
qed

lemma news_skill_effects:
  "\<exists>gets. effects (snd (news_skill cfg env sid u w)) = effects w @ map Http_get gets"
proof -
  let ?q = "strip (drop (length ''news:'') u)"
  obtain gets where "effects (snd (get_latest_news cfg env ?q w)) = effects w @ map Http_get gets"
    using get_latest_news_effects by blast
  then have "effects (snd (news_skill cfg env sid u w)) = effects w @ map Http_get gets"
    by (auto simp: news_skill_def Let_def split: prod.splits sum.splits)
  then show ?thesis by blast
qed


lemma conversation_flow_reply:
  assumes "gemini_post env (gemini_contents (add_message_to_history sid ''user'' (JStr u) w) sid)
             = Responds 200 body (Some llm_data)"
    and "extract_llm_reply llm_data = Some reply" and "reply \<noteq> []"
  shows "conversation_flow env sid u w =
           synthesize env u reply
             (add_message_to_history sid ''model'' (JStr reply)
                (perform (Gemini_post (gemini_contents
                                         (add_message_to_history sid ''user'' (JStr u) w) sid))
                   (add_message_to_history sid ''user'' (JStr u) w)))"
  using assms by (simp add: conversation_flow_def Let_def)

lemma conversation_flow_no_reply:
  assumes "gemini_post env (gemini_contents (add_message_to_history sid ''user'' (JStr u) w) sid)
             = Responds 200 body (Some llm_data)"
    and "extract_llm_reply llm_data = None \<or> extract_llm_reply llm_data = Some []"
  shows "conversation_flow env sid u w =
           (Inl (HTTPException 500 LLM_reply_missing),
            perform (Gemini_post (gemini_contents
                                    (add_message_to_history sid ''user'' (JStr u) w) sid))
              (add_message_to_history sid ''user'' (JStr u) w))"
  using assms by (auto simp: conversation_flow_def Let_def)

lemma user_contents_after_unlink:
  "gemini_contents (add_message_to_history sid ''user'' (JStr u) (after_unlink env w)) sid
     = gemini_contents (add_message_to_history sid ''user'' (JStr u) w) sid"
  by (rule gemini_contents_cong) (simp add: get_chat_history_add)

lemma chat_with_history_gemini_posts:
  assumes "Gemini_post cs \<in> set (effects (snd (chat_with_history cfg env sid w)))"
  shows "Gemini_post cs \<in> set (effects w)
         \<or> (\<exists>u. cs = gemini_contents (add_message_to_history sid ''user'' (JStr u) w) sid)"
proof (cases "transcribe env (temp_name env)")
  case (Inl e)
  with assms show ?thesis
    by (simp add: chat_with_history_transcription_raises)
next
  case (Inr t)
  show ?thesis
  proof (cases "checked_text t")
    case (Inl e)
    with Inr assms show ?thesis
      by (simp add: chat_with_history_rejected after_unlink_def)
  next
    case u: (Inr u)
    let ?w = "after_unlink env w"
    have base: "Gemini_post cs \<in> set (effects ?w) \<Longrightarrow> Gemini_post cs \<in> set (effects w)"
      by (simp add: after_unlink_def)
    consider (search) "startswith (lower u) ''search:''"
      | (news) "\<not> startswith (lower u) ''search:''" "startswith (lower u) ''news:''"
      | (conv) "\<not> startswith (lower u) ''search:''" "\<not> startswith (lower u) ''news:''"
      by blast
    then show ?thesis
    proof cases
      case search
      obtain gets where "effects (snd (search_skill env sid u ?w)) = effects ?w @ map Http_get gets"
        using search_skill_effects by blast
      with assms search base show ?thesis
        by (auto simp: chat_with_history_routed [OF Inr u])
    next
      case news
      obtain gets where "effects (snd (news_skill cfg env sid u ?w)) = effects ?w @ map Http_get gets"
        using news_skill_effects by blast
      with assms news base show ?thesis
        by (auto simp: chat_with_history_routed [OF Inr u])
    next
      case conv
      obtain chunks where "effects (snd (conversation_flow env sid u ?w))
          = effects ?w @ Gemini_post (gemini_contents (add_message_to_history sid ''user'' (JStr u) ?w) sid)
              # map Murf_post chunks"
        using conversation_flow_effects by blast
      with assms conv base show ?thesis
        by (auto simp: chat_with_history_routed [OF Inr u] user_contents_after_unlink)
    qed
  qed
qed

lemma dict_get_Inr_iff:
  "dict_get j k dflt = Inr v \<longleftrightarrow>
     (\<exists>d. j = JObj d \<and> v = (case map_of d k of None \<Rightarrow> dflt | Some x \<Rightarrow> x))"
  by (cases j) auto

lemma index0_Inr_iff:
  "index0 j = Inr x \<longleftrightarrow>
     (\<exists>xs. j = JArr (x # xs)) \<or> (\<exists>c cs. j = JStr (c # cs) \<and> x = JStr [c])"
  by (cases j rule: index0.cases) auto

lemma getitem_Inr_iff:
  "getitem j k = Inr v \<longleftrightarrow> (\<exists>d. j = JObj d \<and> map_of d k = Some v)"
  by (cases j) (auto split: option.splits)

lemma str_strip_Inr_iff: "str_strip j = Inr r \<longleftrightarrow> (\<exists>s. j = JStr s \<and> r = strip s)"
  by (cases j) auto

lemma contains_key: "map_of d k = Some v \<Longrightarrow> k \<in> fst ` set d"
  by (metis map_of_eq_None_iff option.distinct(1))

lemma extract_llm_reply_Some_iff:
  "extract_llm_reply j = Some r \<longleftrightarrow>
     (\<exists>d cd rest ctd pd prest s.
        j = JObj d
        \<and> map_of d ''candidates'' = Some (JArr (JObj cd # rest))
        \<and> map_of cd ''content'' = Some (JObj ctd)
        \<and> map_of ctd ''parts'' = Some (JArr (JObj pd # prest))
        \<and> map_of pd ''text'' = Some (JStr s)
        \<and> r = strip s)"
  (is "?l \<longleftrightarrow> ?r")
proof
  assume ?r
  then show ?l
    by (auto simp: extract_llm_reply_def read_reply_def contains_key)
next
  assume ?l
  then have "read_reply j = Inr (Some r)"
    by (simp add: extract_llm_reply_def split: sum.splits)
  then show ?r
    by (auto simp: read_reply_def and_then_Inr_iff dict_get_Inr_iff index0_Inr_iff
        getitem_Inr_iff str_strip_Inr_iff split: if_splits option.splits)
qed


lemma chat_with_history_synthesizes:
  assumes "transcribe env (temp_name env) = Inr t" and "checked_text t = Inr u"
    and "\<not> startswith (lower u) ''search:''" and "\<not> startswith (lower u) ''news:''"
    and "gemini_post env (gemini_contents (add_message_to_history sid ''user'' (JStr u) w) sid)
           = Responds 200 body (Some llm_data)"
    and "extract_llm_reply llm_data = Some reply" and "reply \<noteq> []"
  shows "chat_with_history cfg env sid w =
           synthesize env u reply
             (add_message_to_history sid ''model'' (JStr reply) (asked env sid u w))"
proof -
  have "gemini_post env
          (gemini_contents (add_message_to_history sid ''user'' (JStr u) (after_unlink env w)) sid)
          = Responds 200 body (Some llm_data)"
    using assms(5) by (simp add: user_contents_after_unlink)
  from conversation_flow_reply [OF this assms(6,7)] assms(3,4) show ?thesis
    by (simp add: chat_with_history_routed [OF assms(1,2)] asked_def)
qed

lemma chat_with_history_no_reply:
  assumes "transcribe env (temp_name env) = Inr t" and "checked_text t = Inr u"
    and "\<not> startswith (lower u) ''search:''" and "\<not> startswith (lower u) ''news:''"
    and "gemini_post env (gemini_contents (add_message_to_history sid ''user'' (JStr u) w) sid)
           = Responds 200 body (Some llm_data)"
    and "extract_llm_reply llm_data = None \<or> extract_llm_reply llm_data = Some []"
  shows "chat_with_history cfg env sid w
           = (Inl (HTTPException 500 LLM_reply_missing), asked env sid u w)"
proof -
  have "gemini_post env
          (gemini_contents (add_message_to_history sid ''user'' (JStr u) (after_unlink env w)) sid)
          = Responds 200 body (Some llm_data)"
    using assms(5) by (simp add: user_contents_after_unlink)
  from conversation_flow_no_reply [OF this assms(6)] assms(3,4) show ?thesis
    by (simp add: chat_with_history_routed [OF assms(1,2)] asked_def)
qed

lemma asked_history:
  "get_chat_history (asked env sid u w) sid'
     = (if sid' = sid then get_chat_history w sid' @ [\<lparr>role = ''user'', msg_text = JStr u\<rparr>]
        else get_chat_history w sid')"
  by (simp add: asked_def get_chat_history_add)

lemma asked_effects:
  "effects (asked env sid u w)
     = effects w @ [Unlink (temp_name env) True,
                    Gemini_post (gemini_contents
                                   (add_message_to_history sid ''user'' (JStr u) w) sid)]"
proof -
  have "effects (after_unlink env w) = effects w @ [Unlink (temp_name env) True]"
    by (simp add: after_unlink_def)
  then show ?thesis
    by (simp add: asked_def perform_def user_contents_after_unlink)
qed

lemma all_results_None_iff: "all_results rs = None \<longleftrightarrow> (\<exists>r \<in> set rs. isl r)"
  by (induction rs rule: all_results.induct) (auto split: option.splits)

lemma all_results_map_Inr: "all_results (map Inr xs) = Some xs"
  by (induction xs) simp_all

lemma gather_murf_audio_fails:
  assumes "i < length chunks" and "isl (generate_murf_audio env i (chunks ! i))"
  shows "gather_murf_audio env chunks = Inl (HTTPException 500 Murf_call_failed)"
proof -
  let ?rs = "map (\<lambda>(i, chunk). generate_murf_audio env i chunk) (enumerate 0 chunks)"
  have "?rs ! i = generate_murf_audio env i (chunks ! i)"
    using assms(1) by (simp add: nth_enumerate_eq)
  moreover have "i < length ?rs" using assms(1) by simp
  ultimately have "\<exists>r \<in> set ?rs. isl r"
    using assms(2) by (metis nth_mem)
  then have "all_results ?rs = None" by (simp only: all_results_None_iff)
  then show ?thesis by (simp add: gather_murf_audio_def)
qed

lemma generate_murf_audio_raises:
  "murf_post env i c = Raises e \<Longrightarrow> generate_murf_audio env i c = Inl (Other e)"
  by (simp add: generate_murf_audio_def)

lemma generate_murf_audio_no_fields:
  "murf_post env i c = Responds st b (Some (JObj d)) \<Longrightarrow>
   map_of d ''audioFile'' = None \<Longrightarrow> map_of d ''audio_url'' = None \<Longrightarrow>
   generate_murf_audio env i c = Inl (HTTPException 500 No_audio_from_Murf)"
  by (simp add: generate_murf_audio_def)


section \<open>Sample runs\<close>

lemma extract_reply_body: "extract_llm_reply (reply_body s) = Some (strip s)"
  by (simp add: extract_llm_reply_Some_iff reply_body_def)

lemma strip_replicate: "\<not> isspace c \<Longrightarrow> strip (replicate n c) = replicate n c"
  by (cases n) (simp_all add: strip_def replicate_append_same [symmetric] del: replicate_Suc)

lemma strip_long_reply: "strip long_reply = long_reply"
  by (simp add: long_reply_def strip_replicate isspace_def)

lemma long_reply_nonempty: "long_reply \<noteq> []"
  by (simp add: long_reply_def)

lemma chunks_of_long_reply:
  "chunks_of long_reply
     = [replicate 3000 (CHR ''a''), replicate 3000 (CHR ''a''), replicate 1000 (CHR ''a'')]"
  by (simp add: long_reply_def chunks_of_7000)

lemma heard_hello:
  "checked_text \<lparr>transcript_error = None, transcript_text = Some ''  Hello Leo ''\<rparr>
     = Inr ''Hello Leo''"
  by (simp add: checked_text_def Let_def truthy_opt_def strip_def isspace_def)

lemma hello_is_conversation:
  "\<not> startswith (lower ''Hello Leo'') ''search:'' \<and> \<not> startswith (lower ''Hello Leo'') ''news:''"
  by (simp add: startswith_def lower_def lower_char_def char_of_def bit_Suc_0_iff)

section \<open>The prompt window\<close>

text \<open>
  C4: the prompt is the persona entry followed by the last \<open>min 5 n\<close> messages of the
  session's log of \<open>n\<close> messages, in order, each in the provider's shape; so it has at
  most 6 entries and its first entry does not come from the log. Every prompt the
  endpoint posts during a request is that list, built from the session's log once the
  user text of the request has been appended.
\<close>

theorem prompt_window:
  "gemini_contents w sid
     = persona_entry # map to_content
         (drop (length (get_chat_history w sid) - 5) (get_chat_history w sid))
   \<and> length (gemini_contents w sid) = 1 + min 5 (length (get_chat_history w sid))
   \<and> length (gemini_contents w sid) \<le> 6
   \<and> (Gemini_post cs \<in> set (effects (snd (chat_with_history cfg env sid w))) \<longrightarrow>
        Gemini_post cs \<in> set (effects w)
        \<or> (\<exists>u. cs = gemini_contents (add_message_to_history sid ''user'' (JStr u) w) sid))"
  using chat_with_history_gemini_posts [of cs cfg env sid w]
  by (auto simp: gemini_contents_window)

theorem prompt_window_witness:
  "gemini_contents
     (add_messages (map (\<lambda>t. (''s1'', ''user'', JStr t))
                      [''one'', ''two'', ''three'', ''four'', ''five'', ''six'', ''seven''])
        fresh_world) ''s1''
     = persona_entry
       # map (\<lambda>t. to_content \<lparr>role = ''user'', msg_text = JStr t\<rparr>)
           [''three'', ''four'', ''five'', ''six'', ''seven'']
   \<and> Gemini_post [persona_entry, to_content \<lparr>role = ''user'', msg_text = JStr ''Hello Leo''\<rparr>]
       \<in> set (effects (snd (chat_with_history sample_cfg sample_env ''s1'' fresh_world)))"
proof -
  let ?talk = "map (\<lambda>t. (''s1'', ''user'', JStr t))
                 [''one'', ''two'', ''three'', ''four'', ''five'', ''six'', ''seven'']"
  let ?cs = "[persona_entry, to_content \<lparr>role = ''user'', msg_text = JStr ''Hello Leo''\<rparr>]"
  have e: "get_chat_history fresh_world ''s1'' = []"
    by (simp add: get_chat_history_def fresh_world_def)
  have h: "get_chat_history (add_messages ?talk fresh_world) ''s1''
             = map (\<lambda>t. \<lparr>role = ''user'', msg_text = JStr t\<rparr>)
                 [''one'', ''two'', ''three'', ''four'', ''five'', ''six'', ''seven'']"
    by (simp add: get_chat_history_add e)
  have tr: "transcribe sample_env (temp_name sample_env)
              = Inr \<lparr>transcript_error = None, transcript_text = Some ''  Hello Leo ''\<rparr>"
    by (simp add: sample_env_def heard_def)
  have gp: "gemini_post sample_env
              (gemini_contents (add_message_to_history ''s1'' ''user'' (JStr ''Hello Leo'')
                                  fresh_world) ''s1'')
              = Responds 200 [] (Some (reply_body '' Hi there ''))"
    by (simp add: sample_env_def)
  have ex: "extract_llm_reply (reply_body '' Hi there '') = Some ''Hi there''"
    by (simp add: extract_reply_body strip_def isspace_def)
  have sent: "gemini_contents (add_message_to_history ''s1'' ''user'' (JStr ''Hello Leo'')
                                  fresh_world) ''s1'' = ?cs"
    by (simp add: gemini_contents_window get_chat_history_add e)
  have run: "chat_with_history sample_cfg sample_env ''s1'' fresh_world
          = synthesize sample_env ''Hello Leo'' ''Hi there''
              (add_message_to_history ''s1'' ''model'' (JStr ''Hi there'')
                 (asked sample_env ''s1'' ''Hello Leo'' fresh_world))"
    by (rule chat_with_history_synthesizes
          [OF tr heard_hello conjunct1 [OF hello_is_conversation]
              conjunct2 [OF hello_is_conversation] gp ex]) simp
  have posted: "Gemini_post ?cs
       \<in> set (effects (snd (chat_with_history sample_cfg sample_env ''s1'' fresh_world)))"
    by (simp add: run synthesize_effects asked_effects sent)
  from prompt_window [of "add_messages ?talk fresh_world" "''s1''" ?cs sample_cfg sample_env]
    h posted
  show ?thesis by simp
qed

section \<open>Speech synthesis\<close>

text \<open>
  C5: in a request that reaches the synthesis, if the request for some chunk raises, or
  its response is a JSON object with neither \<open>audioFile\<close> nor \<open>audio_url\<close>, the
  endpoint fails with the 500 error of the synthesis step; the outcome is that error and
  carries no audio location.
\<close>

theorem failed_chunk_fails_request:
  assumes "transcribe env (temp_name env) = Inr t" and "checked_text t = Inr u"
    and "\<not> startswith (lower u) ''search:''" and "\<not> startswith (lower u) ''news:''"
    and "gemini_post env (gemini_contents (add_message_to_history sid ''user'' (JStr u) w) sid)
           = Responds 200 body (Some llm_data)"
    and "extract_llm_reply llm_data = Some reply" and "reply \<noteq> []"
    and "i < length (chunks_of reply)"
    and "(\<exists>e. murf_post env i (chunks_of reply ! i) = Raises e)
         \<or> (\<exists>st b d. murf_post env i (chunks_of reply ! i) = Responds st b (Some (JObj d))
                \<and> map_of d ''audioFile'' = None \<and> map_of d ''audio_url'' = None)"
  shows "fst (chat_with_history cfg env sid w) = Inl (HTTPException 500 Murf_call_failed)"
proof -
  have "isl (generate_murf_audio env i (chunks_of reply ! i))"
  proof -
    from assms(9) consider
      (raises) e where "murf_post env i (chunks_of reply ! i) = Raises e"
      | (bare) st b d where "murf_post env i (chunks_of reply ! i) = Responds st b (Some (JObj d))"
          "map_of d ''audioFile'' = None" "map_of d ''audio_url'' = None"
      by blast
    then show ?thesis
    proof cases
      case raises
      then show ?thesis by (simp add: generate_murf_audio_raises)
    next
      case bare
      then show ?thesis by (simp add: generate_murf_audio_no_fields)
    qed
  qed
  from gather_murf_audio_fails [OF assms(8) this] show ?thesis
    by (simp add: chat_with_history_synthesizes [OF assms(1-7)] synthesize_def Let_def)
qed

theorem failed_chunk_fails_request_witness:
  "fst (chat_with_history sample_cfg
          (sample_env
             \<lparr>gemini_post := \<lambda>cs. Responds 200 [] (Some (reply_body long_reply)),
              murf_post := \<lambda>i chunk.
                if i = 2 then Responds 200 [] (Some (JObj [(''message'', JStr ''quota'')]))
                else Responds 200 [] (Some (JObj [(''audioFile'', JStr ''clip.mp3'')]))\<rparr>)
          ''s1'' fresh_world)
     = Inl (HTTPException 500 Murf_call_failed)"
proof -
  let ?env = "sample_env
             \<lparr>gemini_post := \<lambda>cs. Responds 200 [] (Some (reply_body long_reply)),
              murf_post := \<lambda>i chunk.
                if i = 2 then Responds 200 [] (Some (JObj [(''message'', JStr ''quota'')]))
                else Responds 200 [] (Some (JObj [(''audioFile'', JStr ''clip.mp3'')]))\<rparr>"
  have tr: "transcribe ?env (temp_name ?env)
              = Inr \<lparr>transcript_error = None, transcript_text = Some ''  Hello Leo ''\<rparr>"
    by (simp add: sample_env_def heard_def)
  have gp: "gemini_post ?env
              (gemini_contents (add_message_to_history ''s1'' ''user'' (JStr ''Hello Leo'')
                                  fresh_world) ''s1'')
              = Responds 200 [] (Some (reply_body long_reply))"
    by (simp add: sample_env_def)
  have ex: "extract_llm_reply (reply_body long_reply) = Some long_reply"
    by (simp add: extract_reply_body strip_long_reply)
  have i: "2 < length (chunks_of long_reply)"
    by (simp add: chunks_of_long_reply)
  have bad: "(\<exists>e. murf_post ?env 2 (chunks_of long_reply ! 2) = Raises e)
         \<or> (\<exists>st b d. murf_post ?env 2 (chunks_of long_reply ! 2) = Responds st b (Some (JObj d))
                \<and> map_of d ''audioFile'' = None \<and> map_of d ''audio_url'' = None)"
    by (simp add: sample_env_def)
  from failed_chunk_fails_request
    [OF tr heard_hello conjunct1 [OF hello_is_conversation]
        conjunct2 [OF hello_is_conversation] gp ex long_reply_nonempty i bad]
  show ?thesis .
qed

text \<open>
  C6: in a request that reaches the synthesis and whose chunk requests all return an
  audio location, there is one location per chunk, the response's \<open>audio_url\<close> is the
  one of the first chunk (the first 3000 characters of the reply), and one request per
  chunk was posted, in chunk order; a reply of 7000 characters has 3 chunks.
\<close>

theorem first_chunk_url_returned:
  assumes "transcribe env (temp_name env) = Inr t" and "checked_text t = Inr u"
    and "\<not> startswith (lower u) ''search:''" and "\<not> startswith (lower u) ''news:''"
    and "gemini_post env (gemini_contents (add_message_to_history sid ''user'' (JStr u) w) sid)
           = Responds 200 body (Some llm_data)"
    and "extract_llm_reply llm_data = Some reply" and "reply \<noteq> []"
    and "map (\<lambda>(i, chunk). generate_murf_audio env i chunk) (enumerate 0 (chunks_of reply))
           = map Inr urls"
  shows "length urls = length (chunks_of reply)
         \<and> 0 < length urls
         \<and> generate_murf_audio env 0 (take 3000 reply) = Inr (urls ! 0)
         \<and> fst (chat_with_history cfg env sid w)
             = Inr \<lparr>user_text = u, llm_text = JStr reply, audio_url = urls ! 0\<rparr>
         \<and> effects (snd (chat_with_history cfg env sid w))
             = effects w
               @ [Unlink (temp_name env) True,
                  Gemini_post (gemini_contents
                                 (add_message_to_history sid ''user'' (JStr u) w) sid)]
               @ map Murf_post (chunks_of reply)
         \<and> (length reply = 7000 \<longrightarrow> length (chunks_of reply) = 3)"
proof -
  let ?cs = "chunks_of reply"
  have len: "length urls = length ?cs"
    using arg_cong [OF assms(8), of length] by simp
  have pos: "0 < length ?cs"
    using assms(7) chunks_of_nonempty by simp
  have first: "?cs ! 0 = take 3000 reply"
    using pos chunks_of_nth [of 0 reply] by simp
  have "map (\<lambda>(i, chunk). generate_murf_audio env i chunk) (enumerate 0 ?cs) ! 0
          = map Inr urls ! 0"
    using assms(8) by simp
  then have gen: "generate_murf_audio env 0 (take 3000 reply) = Inr (urls ! 0)"
    using pos len first by (simp add: nth_enumerate_eq)
  have g: "gather_murf_audio env ?cs = Inr urls"
    by (simp add: gather_murf_audio_def assms(8) all_results_map_Inr)
  obtain x xs where urls: "urls = x # xs" using pos len by (cases urls) auto
  have res: "chat_with_history cfg env sid w
               = (Inr \<lparr>user_text = u, llm_text = JStr reply, audio_url = urls ! 0\<rparr>,
                  (add_message_to_history sid ''model'' (JStr reply) (asked env sid u w))
                    \<lparr>effects := effects (asked env sid u w) @ map Murf_post ?cs\<rparr>)"
    using g urls
    by (simp add: chat_with_history_synthesizes [OF assms(1-7)] synthesize_def Let_def)
  have seven: "length reply = 7000 \<longrightarrow> length ?cs = 3"
    by (simp add: chunks_of_length)
  from len pos gen res seven show ?thesis by (simp add: asked_effects)
qed

theorem first_chunk_url_returned_witness:
  "fst (chat_with_history sample_cfg
          (sample_env\<lparr>gemini_post := \<lambda>cs. Responds 200 [] (Some (reply_body long_reply))\<rparr>)
          ''s1'' fresh_world)
     = Inr \<lparr>user_text = ''Hello Leo'', llm_text = JStr long_reply,
            audio_url = JStr ''https://murf.example/first.mp3''\<rparr>
   \<and> length (chunks_of long_reply) = 3"
proof -
  let ?env = "sample_env\<lparr>gemini_post := \<lambda>cs. Responds 200 [] (Some (reply_body long_reply))\<rparr>"
  let ?urls = "[JStr ''https://murf.example/first.mp3'', JStr ''https://murf.example/later.mp3'',
                JStr ''https://murf.example/later.mp3'']"
  have tr: "transcribe ?env (temp_name ?env)
              = Inr \<lparr>transcript_error = None, transcript_text = Some ''  Hello Leo ''\<rparr>"
    by (simp add: sample_env_def heard_def)
  have gp: "gemini_post ?env
              (gemini_contents (add_message_to_history ''s1'' ''user'' (JStr ''Hello Leo'')
                                  fresh_world) ''s1'')
              = Responds 200 [] (Some (reply_body long_reply))"
    by (simp add: sample_env_def)
  have ex: "extract_llm_reply (reply_body long_reply) = Some long_reply"
    by (simp add: extract_reply_body strip_long_reply)
  have ok: "map (\<lambda>(i, chunk). generate_murf_audio ?env i chunk) (enumerate 0 (chunks_of long_reply))
              = map Inr ?urls"
    by (simp add: chunks_of_long_reply generate_murf_audio_def sample_env_def)
  have len: "length long_reply = 7000" by (simp add: long_reply_def)
  from first_chunk_url_returned
    [OF tr heard_hello conjunct1 [OF hello_is_conversation]
        conjunct2 [OF hello_is_conversation] gp ex long_reply_nonempty ok, of sample_cfg]
    len
  show ?thesis by simp
qed

section \<open>A missing reply\<close>

text \<open>
  C7, as the claim states it, on a model response without candidates: the request fails
  with the missing-reply error, yet the history of the session is not what it was; the
  user text was appended before the model was called.
\<close>

theorem missing_reply_counterexample:
  "get_chat_history fresh_world ''s1'' = []
   \<and> fst (chat_with_history sample_cfg
          (sample_env\<lparr>gemini_post := \<lambda>cs. Responds 200 [] (Some (JObj []))\<rparr>)
          ''s1'' fresh_world)
     = Inl (HTTPException 500 LLM_reply_missing)
   \<and> get_chat_history
        (snd (chat_with_history sample_cfg
          (sample_env\<lparr>gemini_post := \<lambda>cs. Responds 200 [] (Some (JObj []))\<rparr>)
          ''s1'' fresh_world)) ''s1''
     \<noteq> get_chat_history fresh_world ''s1''"
proof -
  let ?env = "sample_env\<lparr>gemini_post := \<lambda>cs. Responds 200 [] (Some (JObj []))\<rparr>"
  have tr: "transcribe ?env (temp_name ?env)
              = Inr \<lparr>transcript_error = None, transcript_text = Some ''  Hello Leo ''\<rparr>"
    by (simp add: sample_env_def heard_def)
  have gp: "gemini_post ?env
              (gemini_contents (add_message_to_history ''s1'' ''user'' (JStr ''Hello Leo'')
                                  fresh_world) ''s1'')
              = Responds 200 [] (Some (JObj []))"
    by (simp add: sample_env_def)
  have ex: "extract_llm_reply (JObj []) = None \<or> extract_llm_reply (JObj []) = Some []"
    by (simp add: extract_llm_reply_def read_reply_def)
  have e: "get_chat_history fresh_world ''s1'' = []"
    by (simp add: get_chat_history_def fresh_world_def)
  from chat_with_history_no_reply
    [OF tr heard_hello conjunct1 [OF hello_is_conversation]
        conjunct2 [OF hello_is_conversation] gp ex, of sample_cfg] e
  show ?thesis by (simp add: asked_history)
qed

text \<open>
  C7 (amended): when the model answers 200 and the reply read from
  \<open>candidates[0].content.parts[0].text\<close> is absent (\<open>extract_llm_reply_Some_iff\<close> says
  when it is present) or empty once stripped, the request fails with the 500
  missing-reply error and no message of role \<open>model\<close> is appended: the session's log
  is its former log followed by the one user message appended at the start of the flow,
  and the log of every other session is unchanged.
\<close>

theorem missing_reply_keeps_user_message:
  assumes "transcribe env (temp_name env) = Inr t" and "checked_text t = Inr u"
    and "\<not> startswith (lower u) ''search:''" and "\<not> startswith (lower u) ''news:''"
    and "gemini_post env (gemini_contents (add_message_to_history sid ''user'' (JStr u) w) sid)
           = Responds 200 body (Some llm_data)"
    and "extract_llm_reply llm_data = None \<or> extract_llm_reply llm_data = Some []"
  shows "fst (chat_with_history cfg env sid w) = Inl (HTTPException 500 LLM_reply_missing)
         \<and> get_chat_history (snd (chat_with_history cfg env sid w)) sid
             = get_chat_history w sid @ [\<lparr>role = ''user'', msg_text = JStr u\<rparr>]
         \<and> (sid' \<noteq> sid \<longrightarrow>
              get_chat_history (snd (chat_with_history cfg env sid w)) sid'
                = get_chat_history w sid')"
  by (simp add: chat_with_history_no_reply [OF assms] asked_history)

theorem missing_reply_keeps_user_message_witness:
  "fst (chat_with_history sample_cfg
          (sample_env\<lparr>gemini_post := \<lambda>cs. Responds 200 [] (Some (reply_body ''   ''))\<rparr>)
          ''s1'' fresh_world)
     = Inl (HTTPException 500 LLM_reply_missing)
   \<and> get_chat_history
        (snd (chat_with_history sample_cfg
          (sample_env\<lparr>gemini_post := \<lambda>cs. Responds 200 [] (Some (reply_body ''   ''))\<rparr>)
          ''s1'' fresh_world)) ''s1''
     = [\<lparr>role = ''user'', msg_text = JStr ''Hello Leo''\<rparr>]"
proof -
  let ?env = "sample_env\<lparr>gemini_post := \<lambda>cs. Responds 200 [] (Some (reply_body ''   ''))\<rparr>"
  have tr: "transcribe ?env (temp_name ?env)
              = Inr \<lparr>transcript_error = None, transcript_text = Some ''  Hello Leo ''\<rparr>"
    by (simp add: sample_env_def heard_def)
  have gp: "gemini_post ?env
              (gemini_contents (add_message_to_history ''s1'' ''user'' (JStr ''Hello Leo'')
                                  fresh_world) ''s1'')
              = Responds 200 [] (Some (reply_body ''   ''))"
    by (simp add: sample_env_def)
  have ex: "extract_llm_reply (reply_body ''   '') = None
            \<or> extract_llm_reply (reply_body ''   '') = Some []"
    by (simp add: extract_reply_body strip_def isspace_def)
  have e: "get_chat_history fresh_world ''s1'' = []"
    by (simp add: get_chat_history_def fresh_world_def)
  from missing_reply_keeps_user_message
    [OF tr heard_hello conjunct1 [OF hello_is_conversation]
        conjunct2 [OF hello_is_conversation] gp ex, of sample_cfg "''s2''"] e
  show ?thesis by simp
qed


section \<open>Skill routing\<close>

lemma of_char_lower_char:
  "(of_char (lower_char c) :: nat) =
     (if (65 \<le> (of_char c :: nat) \<and> (of_char c :: nat) \<le> 90)
         \<or> (192 \<le> (of_char c :: nat) \<and> (of_char c :: nat) \<le> 222 \<and> (of_char c :: nat) \<noteq> 215)
      then of_char c + 32 else of_char c)"
  by (simp add: lower_char_def Let_def)

lemma lower_char_any_case:
  assumes "(of_char l :: nat) < 128" and "\<not> (65 \<le> (of_char l :: nat) \<and> (of_char l :: nat) \<le> 90)"
  shows "lower_char c = l \<longleftrightarrow> any_case c l"
proof -
  have "lower_char c = l \<longleftrightarrow> (of_char (lower_char c) :: nat) = of_char l" by simp
  moreover have "c = l \<longleftrightarrow> (of_char c :: nat) = of_char l" by simp
  ultimately show ?thesis
    using assms unfolding any_case_def of_char_lower_char by (auto split: if_splits)
qed

lemma lower_any_case:
  assumes "list_all (\<lambda>l. (of_char l :: nat) < 128
                          \<and> \<not> (65 \<le> (of_char l :: nat) \<and> (of_char l :: nat) \<le> 90)) p"
  shows "lower a = p \<longleftrightarrow> list_all2 any_case a p"
  using assms
proof (induction a arbitrary: p)
  case Nil
  then show ?case by (auto simp: lower_def)
next
  case (Cons c a)
  then show ?case
    by (cases p) (auto simp: lower_def lower_char_any_case)
qed

lemma startswith_lower_any_case:
  assumes "list_all (\<lambda>l. (of_char l :: nat) < 128
                          \<and> \<not> (65 \<le> (of_char l :: nat) \<and> (of_char l :: nat) \<le> 90)) p"
  shows "startswith (lower u) p \<longleftrightarrow> list_all2 any_case (take (length p) u) p"
  using lower_any_case [OF assms, of "take (length p) u"]
  by (simp add: startswith_def lower_def take_map)

lemma search_prefix_any_case:
  "startswith (lower u) ''search:''
     \<longleftrightarrow> list_all2 any_case (take (length ''search:'') u) ''search:''"
  by (rule startswith_lower_any_case) simp

lemma news_prefix_any_case:
  "startswith (lower u) ''news:''
     \<longleftrightarrow> list_all2 any_case (take (length ''news:'') u) ''news:''"
  by (rule startswith_lower_any_case) simp

lemma checked_text_stripped:
  "checked_text t = Inr u \<Longrightarrow> \<exists>txt. transcript_text t = Some txt \<and> u = strip txt"
  by (auto simp: checked_text_def Let_def split: if_splits option.splits)

text \<open>
  C3: the text the router sees is the stripped transcript text. It starts with
  \<open>search:\<close> in any case exactly when the test of the first branch holds, and likewise
  for \<open>news:\<close>. In the first case the Search Skill runs on the text without its first
  7 characters, stripped; otherwise, in the second case, the News Skill runs on the text
  without its first 5 characters, stripped; otherwise the Conversation Flow runs. Both
  skills answer with an empty \<open>audio_url\<close> and append the user text and their answer.
  The transcript \<open>Search: weather today\<close> goes to the Search Skill with the query
  \<open>weather today\<close>.
\<close>

theorem skill_routing:
  assumes "transcribe env (temp_name env) = Inr t" and "checked_text t = Inr u"
  shows "(\<exists>txt. transcript_text t = Some txt \<and> u = strip txt)
    \<and> (startswith (lower u) ''search:''
          \<longleftrightarrow> list_all2 any_case (take (length ''search:'') u) ''search:'')
    \<and> (startswith (lower u) ''news:''
          \<longleftrightarrow> list_all2 any_case (take (length ''news:'') u) ''news:'')
    \<and> (startswith (lower u) ''search:'' \<longrightarrow>
          chat_with_history cfg env sid w
            = (case simple_web_search env (strip (drop (length ''search:'') u))
                      (after_unlink env w) of
                 (Inl e, w1) \<Rightarrow> (Inl (Other e), w1)
               | (Inr answer, w1) \<Rightarrow>
                   (Inr \<lparr>user_text = u, llm_text = answer, audio_url = JStr []\<rparr>,
                    add_message_to_history sid ''model'' answer
                      (add_message_to_history sid ''user'' (JStr u) w1))))
    \<and> (\<not> startswith (lower u) ''search:'' \<and> startswith (lower u) ''news:'' \<longrightarrow>
          chat_with_history cfg env sid w
            = (case get_latest_news cfg env (strip (drop (length ''news:'') u))
                      (after_unlink env w) of
                 (Inl e, w1) \<Rightarrow> (Inl (Other e), w1)
               | (Inr report, w1) \<Rightarrow>
                   (Inr \<lparr>user_text = u, llm_text = report, audio_url = JStr []\<rparr>,
                    add_message_to_history sid ''model'' report
                      (add_message_to_history sid ''user'' (JStr u) w1))))
    \<and> (\<not> startswith (lower u) ''search:'' \<and> \<not> startswith (lower u) ''news:'' \<longrightarrow>
          chat_with_history cfg env sid w = conversation_flow env sid u (after_unlink env w))
    \<and> checked_text \<lparr>transcript_error = None, transcript_text = Some ''Search: weather today''\<rparr>
          = Inr ''Search: weather today''
    \<and> startswith (lower ''Search: weather today'') ''search:''
    \<and> strip (drop (length ''search:'') ''Search: weather today'') = ''weather today''"
proof -
  have a: "checked_text \<lparr>transcript_error = None, transcript_text = Some ''Search: weather today''\<rparr>
          = Inr ''Search: weather today''"
    by (simp add: checked_text_def Let_def truthy_opt_def strip_def isspace_def)
  have b: "startswith (lower ''Search: weather today'') ''search:''"
    by (simp add: startswith_def lower_def lower_char_def char_of_def bit_Suc_0_iff)
  have c: "strip (drop (length ''search:'') ''Search: weather today'') = ''weather today''"
    by (simp add: strip_def isspace_def)
  have t1: "\<exists>txt. transcript_text t = Some txt \<and> u = strip txt"
    by (rule checked_text_stripped [OF assms(2)])
  have r1: "startswith (lower u) ''search:'' \<longrightarrow>
          chat_with_history cfg env sid w
            = (case simple_web_search env (strip (drop (length ''search:'') u))
                      (after_unlink env w) of
                 (Inl e, w1) \<Rightarrow> (Inl (Other e), w1)
               | (Inr answer, w1) \<Rightarrow>
                   (Inr \<lparr>user_text = u, llm_text = answer, audio_url = JStr []\<rparr>,
                    add_message_to_history sid ''model'' answer
                      (add_message_to_history sid ''user'' (JStr u) w1)))"
    by (simp add: chat_with_history_routed [OF assms] search_skill_def Let_def)
  have r2: "\<not> startswith (lower u) ''search:'' \<and> startswith (lower u) ''news:'' \<longrightarrow>
          chat_with_history cfg env sid w
            = (case get_latest_news cfg env (strip (drop (length ''news:'') u))
                      (after_unlink env w) of
                 (Inl e, w1) \<Rightarrow> (Inl (Other e), w1)
               | (Inr report, w1) \<Rightarrow>
                   (Inr \<lparr>user_text = u, llm_text = report, audio_url = JStr []\<rparr>,
                    add_message_to_history sid ''model'' report
                      (add_message_to_history sid ''user'' (JStr u) w1)))"
    by (simp add: chat_with_history_routed [OF assms] news_skill_def Let_def)
  have r3: "\<not> startswith (lower u) ''search:'' \<and> \<not> startswith (lower u) ''news:'' \<longrightarrow>
          chat_with_history cfg env sid w = conversation_flow env sid u (after_unlink env w)"
    by (simp add: chat_with_history_routed [OF assms])
  show ?thesis
    by (intro conjI t1 search_prefix_any_case news_prefix_any_case r1 r2 r3 a b c)
qed

theorem skill_routing_witness:
  "chat_with_history sample_cfg
      (sample_env\<lparr>transcribe := \<lambda>p. heard ''Search: weather today''\<rparr>) ''s1'' fresh_world
     = (Inr \<lparr>user_text = ''Search: weather today'', llm_text = JStr ''Sunny.'',
             audio_url = JStr []\<rparr>,
        \<lparr>chat_history_store =
           [''s1'' \<mapsto> [\<lparr>role = ''user'', msg_text = JStr ''Search: weather today''\<rparr>,
                        \<lparr>role = ''model'', msg_text = JStr ''Sunny.''\<rparr>]],
         files = {},
         effects = [Unlink ''uploads/tmp0001.wav'' True,
                    Http_get ''https://api.duckduckgo.com/?q=weather today&format=json'']\<rparr>)
   \<and> fst (chat_with_history sample_cfg
           (sample_env\<lparr>transcribe := \<lambda>p. heard ''NEWS:  rain ''\<rparr>) ''s1'' fresh_world)
       = Inr \<lparr>user_text = ''NEWS:  rain'',
              llm_text = JStr (''No news found for '' @ [CHR 0x27] @ ''rain'' @ [CHR 0x27] @ ''.''),
              audio_url = JStr []\<rparr>
   \<and> effects (snd (chat_with_history sample_cfg
           (sample_env\<lparr>transcribe := \<lambda>p. heard ''NEWS:  rain ''\<rparr>) ''s1'' fresh_world))
       = [Unlink ''uploads/tmp0001.wav'' True,
          Http_get ''https://newsapi.org/v2/top-headlines?q=rain&language=en&pageSize=5&apiKey=news-key'']
   \<and> chat_with_history sample_cfg sample_env ''s1'' fresh_world
       = conversation_flow sample_env ''s1'' ''Hello Leo'' (after_unlink sample_env fresh_world)"
proof -
  let ?e1 = "sample_env\<lparr>transcribe := \<lambda>p. heard ''Search: weather today''\<rparr>"
  let ?e2 = "sample_env\<lparr>transcribe := \<lambda>p. heard ''NEWS:  rain ''\<rparr>"
  have tr1: "transcribe ?e1 (temp_name ?e1)
               = Inr \<lparr>transcript_error = None, transcript_text = Some ''Search: weather today''\<rparr>"
    by (simp add: heard_def)
  have ct1: "checked_text \<lparr>transcript_error = None, transcript_text = Some ''Search: weather today''\<rparr>
               = Inr ''Search: weather today''"
    by (simp add: checked_text_def Let_def truthy_opt_def strip_def isspace_def)
  have s1: "startswith (lower ''Search: weather today'') ''search:''"
    by (simp add: startswith_def lower_def lower_char_def char_of_def bit_Suc_0_iff)
  have run1: "chat_with_history sample_cfg ?e1 ''s1'' fresh_world
     = (Inr \<lparr>user_text = ''Search: weather today'', llm_text = JStr ''Sunny.'',
             audio_url = JStr []\<rparr>,
        \<lparr>chat_history_store =
           [''s1'' \<mapsto> [\<lparr>role = ''user'', msg_text = JStr ''Search: weather today''\<rparr>,
                        \<lparr>role = ''model'', msg_text = JStr ''Sunny.''\<rparr>]],
         files = {},
         effects = [Unlink ''uploads/tmp0001.wav'' True,
                    Http_get ''https://api.duckduckgo.com/?q=weather today&format=json'']\<rparr>)"
    using skill_routing [OF tr1 ct1, of sample_cfg "''s1''" fresh_world] s1
    by (simp add: simple_web_search_def search_answer_def sample_env_def after_unlink_def
        perform_def fresh_world_def strip_def isspace_def Let_def add_message_to_history_def)
  have tr2: "transcribe ?e2 (temp_name ?e2)
               = Inr \<lparr>transcript_error = None, transcript_text = Some ''NEWS:  rain ''\<rparr>"
    by (simp add: heard_def)
  have ct2: "checked_text \<lparr>transcript_error = None, transcript_text = Some ''NEWS:  rain ''\<rparr>
               = Inr ''NEWS:  rain''"
    by (simp add: checked_text_def Let_def truthy_opt_def strip_def isspace_def)
  have s2: "\<not> startswith (lower ''NEWS:  rain'') ''search:'' \<and> startswith (lower ''NEWS:  rain'') ''news:''"
    by (simp add: startswith_def lower_def lower_char_def char_of_def bit_Suc_0_iff)
  have run2: "chat_with_history sample_cfg ?e2 ''s1'' fresh_world
     = (Inr \<lparr>user_text = ''NEWS:  rain'',
              llm_text = JStr (''No news found for '' @ [CHR 0x27] @ ''rain'' @ [CHR 0x27] @ ''.''),
              audio_url = JStr []\<rparr>,
        \<lparr>chat_history_store =
           [''s1'' \<mapsto> [\<lparr>role = ''user'', msg_text = JStr ''NEWS:  rain''\<rparr>,
                        \<lparr>role = ''model'',
                         msg_text = JStr (''No news found for '' @ [CHR 0x27] @ ''rain''
                                           @ [CHR 0x27] @ ''.'')\<rparr>]],
         files = {},
         effects = [Unlink ''uploads/tmp0001.wav'' True,
                    Http_get ''https://newsapi.org/v2/top-headlines?q=rain&language=en&pageSize=5&apiKey=news-key'']\<rparr>)"
    using skill_routing [OF tr2 ct2, of sample_cfg "''s1''" fresh_world] s2
    by (simp add: get_latest_news_def news_answer_def sample_env_def sample_cfg_def
        after_unlink_def perform_def fresh_world_def strip_def isspace_def Let_def
        add_message_to_history_def)
  have tr3: "transcribe sample_env (temp_name sample_env)
              = Inr \<lparr>transcript_error = None, transcript_text = Some ''  Hello Leo ''\<rparr>"
    by (simp add: sample_env_def heard_def)
  have run3: "chat_with_history sample_cfg sample_env ''s1'' fresh_world
       = conversation_flow sample_env ''s1'' ''Hello Leo'' (after_unlink sample_env fresh_world)"
    using skill_routing [OF tr3 heard_hello, of sample_cfg "''s1''" fresh_world]
      hello_is_conversation
    by blast
  from run1 run2 run3 show ?thesis by simp
qed

end
